theory Spec2Isabelle
  imports Complex_Main "HOL-Library.Product_Lexorder" "HOL-Library.FSet"
begin

section \<open>SpatialHash (src/src/systems/spatial-hash.js)\<close>

text \<open>
  JavaScript numbers are modelled as (finite) reals.  A cell key is the string
  \<^verbatim>\<open>`${cellX},${cellY}`\<close> of two integers in the source; the string is an injective
  encoding of the pair, so the model keeps the pair.  Objects are compared by reference
  in the source; the model is polymorphic in the type \<open>'o\<close> of object references.
  The two \<^verbatim>\<open>Map\<close>s are partial functions, a cell's \<^verbatim>\<open>Set\<close> is a set.
  \<^verbatim>\<open>Date.now()\<close> is passed in as the parameter \<open>now\<close>.
\<close>

type_synonym cell_key = "int \<times> int"

record objectData =
  cellKeys :: "cell_key list"
  obj_x :: real
  obj_y :: real
  obj_width :: real
  obj_height :: real
  lastUpdate :: int

record hash_stats =
  totalObjects :: nat
  totalCells :: nat
  queriesThisFrame :: nat
  collisionChecksAvoided :: nat

record 'o SpatialHash =
  cellSize :: real
  cells :: "cell_key \<rightharpoonup> 'o set"
  objects :: "'o \<rightharpoonup> objectData"
  stats :: hash_stats


definition SpatialHash_new :: "real \<Rightarrow> 'o SpatialHash" where
  "SpatialHash_new cs = \<lparr>cellSize = cs, cells = Map.empty, objects = Map.empty,
     stats = \<lparr>totalObjects = 0, totalCells = 0,
              queriesThisFrame = 0, collisionChecksAvoided = 0\<rparr>\<rparr>"

definition getCellKey :: "'o SpatialHash \<Rightarrow> real \<Rightarrow> real \<Rightarrow> cell_key" where
  "getCellKey h px py = (\<lfloor>px / cellSize h\<rfloor>, \<lfloor>py / cellSize h\<rfloor>)"

text \<open>The two nested \<^verbatim>\<open>for\<close> loops of \<^verbatim>\<open>getObjectCells\<close>: \<open>cellX\<close> outside,
  \<open>cellY\<close> inside, both bounds inclusive; an empty range pushes nothing.\<close>

definition getObjectCells :: "'o SpatialHash \<Rightarrow> real \<Rightarrow> real \<Rightarrow> real \<Rightarrow> real \<Rightarrow> cell_key list" where
  "getObjectCells h px py w ht =
     (let startCellX = \<lfloor>px / cellSize h\<rfloor>;
          endCellX = \<lfloor>(px + w - 1) / cellSize h\<rfloor>;
          startCellY = \<lfloor>py / cellSize h\<rfloor>;
          endCellY = \<lfloor>(py + ht - 1) / cellSize h\<rfloor>
      in concat (map (\<lambda>cellX. map (\<lambda>cellY. (cellX, cellY)) [startCellY..endCellY])
                     [startCellX..endCellX]))"

text \<open>\<^verbatim>\<open>cellKeys.forEach(key => { if (!cells.has(key)) cells.set(key, new Set());
  cells.get(key).add(object) })\<close>\<close>

definition addToCell :: "'o \<Rightarrow> cell_key \<Rightarrow> (cell_key \<rightharpoonup> 'o set) \<Rightarrow> (cell_key \<rightharpoonup> 'o set)" where
  "addToCell obj key c =
     (case c key of None \<Rightarrow> c(key \<mapsto> {obj}) | Some cellSet \<Rightarrow> c(key \<mapsto> insert obj cellSet))"

fun addToCells :: "'o \<Rightarrow> cell_key list \<Rightarrow> (cell_key \<rightharpoonup> 'o set) \<Rightarrow> (cell_key \<rightharpoonup> 'o set)" where
  "addToCells obj [] c = c"
| "addToCells obj (key # keys) c = addToCells obj keys (addToCell obj key c)"

text \<open>\<^verbatim>\<open>keys.forEach(key => { const cellSet = cells.get(key); if (cellSet) {
  cellSet.delete(object); if (cellSet.size === 0) cells.delete(key) } })\<close>\<close>

definition removeFromCell :: "'o \<Rightarrow> cell_key \<Rightarrow> (cell_key \<rightharpoonup> 'o set) \<Rightarrow> (cell_key \<rightharpoonup> 'o set)" where
  "removeFromCell obj key c =
     (case c key of
        None \<Rightarrow> c
      | Some cellSet \<Rightarrow>
          (if cellSet - {obj} = {} then c(key := None) else c(key \<mapsto> cellSet - {obj})))"

fun removeFromCells :: "'o \<Rightarrow> cell_key list \<Rightarrow> (cell_key \<rightharpoonup> 'o set) \<Rightarrow> (cell_key \<rightharpoonup> 'o set)" where
  "removeFromCells obj [] c = c"
| "removeFromCells obj (key # keys) c = removeFromCells obj keys (removeFromCell obj key c)"

definition refreshStats :: "'o SpatialHash \<Rightarrow> 'o SpatialHash" where
  "refreshStats h = h\<lparr>stats := (stats h)\<lparr>totalObjects := card (dom (objects h)),
                                          totalCells := card (dom (cells h))\<rparr>\<rparr>"

definition SpatialHash_remove :: "'o \<Rightarrow> 'o SpatialHash \<Rightarrow> bool \<times> 'o SpatialHash" where
  "SpatialHash_remove obj h =
     (case objects h obj of
        None \<Rightarrow> (False, h)
      | Some objectData \<Rightarrow>
          (True, refreshStats (h\<lparr>cells := removeFromCells obj (cellKeys objectData) (cells h),
                                 objects := (objects h)(obj := None)\<rparr>)))"

definition SpatialHash_add :: "int \<Rightarrow> 'o \<Rightarrow> real \<Rightarrow> real \<Rightarrow> real \<Rightarrow> real \<Rightarrow> 'o SpatialHash \<Rightarrow> 'o SpatialHash" where
  "SpatialHash_add now obj px py w ht h =
     (let h1 = snd (SpatialHash_remove obj h);
          keys = getObjectCells h1 px py w ht
      in refreshStats (h1\<lparr>cells := addToCells obj keys (cells h1),
                           objects := (objects h1)(obj \<mapsto>
                             \<lparr>cellKeys = keys, obj_x = px, obj_y = py,
                              obj_width = w, obj_height = ht, lastUpdate = now\<rparr>)\<rparr>))"

text \<open>\<^verbatim>\<open>arraysEqual\<close>: equal lengths and equal sorted copies.  The source sorts the key
  strings; any total order gives the same verdict, the model sorts the pairs.\<close>

definition arraysEqual :: "cell_key list \<Rightarrow> cell_key list \<Rightarrow> bool" where
  "arraysEqual arr1 arr2 = (length arr1 = length arr2 \<and> sort arr1 = sort arr2)"

definition SpatialHash_update :: "int \<Rightarrow> 'o \<Rightarrow> real \<Rightarrow> real \<Rightarrow> real \<Rightarrow> real \<Rightarrow> 'o SpatialHash \<Rightarrow> 'o SpatialHash" where
  "SpatialHash_update now obj newX newY newWidth newHeight h =
     (case objects h obj of
        None \<Rightarrow> SpatialHash_add now obj newX newY newWidth newHeight h
      | Some objectData \<Rightarrow>
          if obj_x objectData = newX \<and> obj_y objectData = newY \<and>
             obj_width objectData = newWidth \<and> obj_height objectData = newHeight
          then h
          else
            let newCellKeys = getObjectCells h newX newY newWidth newHeight;
                oldCellKeys = cellKeys objectData;
                cellsChanged = (\<not> arraysEqual oldCellKeys newCellKeys)
            in if cellsChanged
               then h\<lparr>cells := addToCells obj newCellKeys (removeFromCells obj oldCellKeys (cells h)),
                      objects := (objects h)(obj \<mapsto>
                        \<lparr>cellKeys = newCellKeys, obj_x = newX, obj_y = newY,
                         obj_width = newWidth, obj_height = newHeight, lastUpdate = now\<rparr>)\<rparr>
               else h\<lparr>objects := (objects h)(obj \<mapsto>
                        objectData\<lparr>obj_x := newX, obj_y := newY, obj_width := newWidth,
                                   obj_height := newHeight, lastUpdate := now\<rparr>)\<rparr>)"

definition calculateDistance :: "real \<Rightarrow> real \<Rightarrow> real \<Rightarrow> real \<Rightarrow> real" where
  "calculateDistance x1 y1 x2 y2 =
     (let dx = x2 - x1; dy = y2 - y1 in sqrt (dx * dx + dy * dy))"

definition cellObjects :: "'o SpatialHash \<Rightarrow> cell_key \<Rightarrow> 'o set" where
  "cellObjects h key = (case cells h key of None \<Rightarrow> {} | Some cellSet \<Rightarrow> cellSet)"

text \<open>\<^verbatim>\<open>queryPoint\<close> returns the members of the result \<^verbatim>\<open>Set\<close> (the order of
  \<^verbatim>\<open>Array.from\<close> is not modelled) and counts the query in the statistics.\<close>

definition queryPoint :: "'o SpatialHash \<Rightarrow> real \<Rightarrow> real \<Rightarrow> real \<Rightarrow> 'o set \<times> 'o SpatialHash" where
  "queryPoint h px py radius =
     (let h' = h\<lparr>stats := (stats h)\<lparr>queriesThisFrame := Suc (queriesThisFrame (stats h))\<rparr>\<rparr>;
          results =
            (if radius = 0 then cellObjects h (getCellKey h px py)
             else (\<Union>key \<in> set (getObjectCells h (px - radius) (py - radius) (radius * 2) (radius * 2)).
                     {obj \<in> cellObjects h key.
                        case objects h obj of
                          None \<Rightarrow> False
                        | Some objData \<Rightarrow>
                            calculateDistance px py (obj_x objData) (obj_y objData) \<le> radius}))
      in (results, h'))"


subsection \<open>Invariant\<close>

definition occupants :: "'o SpatialHash \<Rightarrow> cell_key \<Rightarrow> 'o set" where
  "occupants h key = {obj. \<exists>d. objects h obj = Some d \<and> key \<in> set (cellKeys d)}"






section \<open>Snake (class \<^verbatim>\<open>Snake\<close> of src/unnamed/part_001)\<close>

text \<open>
  A coordinate or force component is a JavaScript number that can be \<^verbatim>\<open>NaN\<close>: the vortex
  branch of \<^verbatim>\<open>GravityWell.applyGravity\<close> divides by the distance.  \<open>jsnum\<close> is a finite real
  or \<open>None\<close> for \<^verbatim>\<open>NaN\<close>; arithmetic with \<^verbatim>\<open>NaN\<close> gives \<^verbatim>\<open>NaN\<close> and every comparison with
  \<^verbatim>\<open>NaN\<close> is false.  Rounding to doubles is not modelled.
\<close>

type_synonym jsnum = "real option"

definition js_add :: "jsnum \<Rightarrow> jsnum \<Rightarrow> jsnum" where
  "js_add a b = (case a of None \<Rightarrow> None | Some u \<Rightarrow> (case b of None \<Rightarrow> None | Some v \<Rightarrow> Some (u + v)))"

definition js_sub :: "jsnum \<Rightarrow> jsnum \<Rightarrow> jsnum" where
  "js_sub a b = (case a of None \<Rightarrow> None | Some u \<Rightarrow> (case b of None \<Rightarrow> None | Some v \<Rightarrow> Some (u - v)))"

definition js_mul :: "jsnum \<Rightarrow> jsnum \<Rightarrow> jsnum" where
  "js_mul a b = (case a of None \<Rightarrow> None | Some u \<Rightarrow> (case b of None \<Rightarrow> None | Some v \<Rightarrow> Some (u * v)))"

definition js_neg :: "jsnum \<Rightarrow> jsnum" where
  "js_neg a = (case a of None \<Rightarrow> None | Some u \<Rightarrow> Some (- u))"

text \<open>\<^verbatim>\<open>a / b\<close>: \<^verbatim>\<open>0 / 0\<close> is \<^verbatim>\<open>NaN\<close>.  A non-zero numerator over zero is an infinity
  in JavaScript; it is not a finite number either and is folded into \<open>None\<close> (the only
  divisor of the modelled code that can be zero is a distance, which is zero together with
  the numerator).\<close>

definition js_div :: "jsnum \<Rightarrow> jsnum \<Rightarrow> jsnum" where
  "js_div a b =
     (case a of None \<Rightarrow> None
      | Some u \<Rightarrow> (case b of None \<Rightarrow> None | Some v \<Rightarrow> if v = 0 then None else Some (u / v)))"

definition js_eq :: "jsnum \<Rightarrow> jsnum \<Rightarrow> bool" where
  "js_eq a b = (case a of None \<Rightarrow> False | Some u \<Rightarrow> (case b of None \<Rightarrow> False | Some v \<Rightarrow> u = v))"

definition js_greater :: "jsnum \<Rightarrow> jsnum \<Rightarrow> bool" where
  "js_greater a b = (case a of None \<Rightarrow> False | Some u \<Rightarrow> (case b of None \<Rightarrow> False | Some v \<Rightarrow> u > v))"

definition Math_sqrt :: "jsnum \<Rightarrow> jsnum" where
  "Math_sqrt a = (case a of None \<Rightarrow> None | Some u \<Rightarrow> if u < 0 then None else Some (sqrt u))"

definition Math_min :: "jsnum \<Rightarrow> jsnum \<Rightarrow> jsnum" where
  "Math_min a b = (case a of None \<Rightarrow> None | Some u \<Rightarrow> (case b of None \<Rightarrow> None | Some v \<Rightarrow> Some (min u v)))"

definition Math_max :: "jsnum \<Rightarrow> jsnum \<Rightarrow> jsnum" where
  "Math_max a b = (case a of None \<Rightarrow> None | Some u \<Rightarrow> (case b of None \<Rightarrow> None | Some v \<Rightarrow> Some (max u v)))"

text \<open>\<^verbatim>\<open>Math.round\<close>: the nearest integer, a tie going up.\<close>

definition Math_round :: "jsnum \<Rightarrow> jsnum" where
  "Math_round a = (case a of None \<Rightarrow> None | Some u \<Rightarrow> Some (of_int \<lfloor>u + 1 / 2\<rfloor>))"

record segment =
  seg_x :: jsnum
  seg_y :: jsnum
  seg_type :: string

record powerUp =
  pu_name :: string
  pu_level :: nat
  pu_duration :: int
  pu_range :: "nat option"

text \<open>The fields of a \<^verbatim>\<open>Snake\<close>, without the colour tables.  A direction
  \<^verbatim>\<open>{x, y}\<close> is a pair.  \<^verbatim>\<open>activateBoost\<close>, with its timer, and the rendering methods are
  not part of the model.\<close>

record Snake =
  snake_type :: string
  segments :: "segment list"
  direction :: "real \<times> real"
  nextDirection :: "real \<times> real"
  alive :: bool
  speed :: real
  baseSpeed :: real
  boostActive :: bool
  boostCooldown :: real
  invulnerable :: bool
  invulnerabilityTime :: real
  velocity :: "real \<times> real"
  gravitationalForce :: "jsnum \<times> jsnum"
  activePowerUps :: "string \<rightharpoonup> powerUp"

definition Snake_new :: "real \<Rightarrow> real \<Rightarrow> string \<Rightarrow> Snake" where
  "Snake_new px py t =
     \<lparr>snake_type = t,
      segments = [\<lparr>seg_x = Some px, seg_y = Some py, seg_type = ''head''\<rparr>],
      direction = (1, 0), nextDirection = (1, 0), alive = True,
      speed = 1, baseSpeed = 1, boostActive = False, boostCooldown = 0,
      invulnerable = False, invulnerabilityTime = 0,
      velocity = (0, 0), gravitationalForce = (Some 0, Some 0),
      activePowerUps = Map.empty\<rparr>"

definition Snake_reset :: "real \<Rightarrow> real \<Rightarrow> Snake \<Rightarrow> Snake" where
  "Snake_reset px py s =
     s\<lparr>segments := [\<lparr>seg_x = Some px, seg_y = Some py, seg_type = ''head''\<rparr>],
       direction := (1, 0), nextDirection := (1, 0), alive := True,
       speed := baseSpeed s, boostActive := False, boostCooldown := 0,
       invulnerable := False, invulnerabilityTime := 0,
       velocity := (0, 0), gravitationalForce := (Some 0, Some 0),
       activePowerUps := Map.empty\<rparr>"

text \<open>The two object literals of \<^verbatim>\<open>setDirection\<close>, looked up by their own keys.\<close>

definition opposite :: "string \<rightharpoonup> string" where
  "opposite = map_of [(''up'', ''down''), (''down'', ''up''),
                      (''left'', ''right''), (''right'', ''left'')]"

definition directions :: "string \<rightharpoonup> real \<times> real" where
  "directions = map_of [(''up'', (0, -1)), (''down'', (0, 1)),
                        (''left'', (-1, 0)), (''right'', (1, 0))]"

definition getCurrentDirectionName :: "Snake \<Rightarrow> string" where
  "getCurrentDirectionName s =
     (let x = fst (direction s); y = snd (direction s)
      in if x = 0 \<and> y = -1 then ''up''
         else if x = 0 \<and> y = 1 then ''down''
         else if x = -1 \<and> y = 0 then ''left''
         else if x = 1 \<and> y = 0 then ''right''
         else ''right'')"

definition Snake_setDirection :: "string \<Rightarrow> Snake \<Rightarrow> Snake" where
  "Snake_setDirection d s =
     (if \<not> alive s then s
      else if opposite d = Some (getCurrentDirectionName s) then s
      else s\<lparr>nextDirection := (case directions d of Some v \<Rightarrow> v | None \<Rightarrow> nextDirection s)\<rparr>)"

definition setInvulnerable :: "real \<Rightarrow> Snake \<Rightarrow> Snake" where
  "setInvulnerable duration s = s\<lparr>invulnerable := True, invulnerabilityTime := duration\<rparr>"

definition countType :: "string \<Rightarrow> segment list \<Rightarrow> nat" where
  "countType t segs = length (filter (\<lambda>seg. seg_type seg = t) segs)"

text \<open>\<^verbatim>\<open>updateSegmentEffects\<close> counts the segments by type and sets or deletes the two
  derived power-ups.  The second name has an e-acute, two bytes in UTF-8.\<close>

definition updateSegmentEffects :: "Snake \<Rightarrow> Snake" where
  "updateSegmentEffects s =
     (let armored = countType ''armored'' (segments s);
          magnetic = countType ''magnetic'' (segments s);
          p1 = (if armored > 0
                then (activePowerUps s)(''armor'' \<mapsto>
                       \<lparr>pu_name = ''Blindage'', pu_level = armored,
                        pu_duration = -1, pu_range = None\<rparr>)
                else (activePowerUps s)(''armor'' := None));
          p2 = (if magnetic > 0
                then p1(''magnetism'' \<mapsto>
                       \<lparr>pu_name = ''Magn'' @ [CHR 0xC3, CHR 0xA9] @ ''tisme'', pu_level = magnetic,
                        pu_duration = -1, pu_range = Some (magnetic * 30)\<rparr>)
                else p1(''magnetism'' := None))
      in s\<lparr>activePowerUps := p2\<rparr>)"

text \<open>\<^verbatim>\<open>grow\<close> reads the last segment; on an empty segment list that read throws
  (\<open>None\<close>).\<close>

definition Snake_grow :: "string \<Rightarrow> Snake \<Rightarrow> Snake option" where
  "Snake_grow segmentType s =
     (if \<not> alive s then Some s
      else case segments s of
             [] \<Rightarrow> None
           | _ # _ \<Rightarrow>
               (let tail = last (segments s)
                in Some (updateSegmentEffects
                     (s\<lparr>segments := segments s @
                          [\<lparr>seg_x = seg_x tail, seg_y = seg_y tail, seg_type = segmentType\<rparr>]\<rparr>))))"

definition applyGravitationalForce :: "jsnum \<Rightarrow> jsnum \<Rightarrow> Snake \<Rightarrow> Snake" where
  "applyGravitationalForce fx fy s =
     s\<lparr>gravitationalForce := (js_add (fst (gravitationalForce s)) fx,
                               js_add (snd (gravitationalForce s)) fy)\<rparr>"

text \<open>\<^verbatim>\<open>moveSegments\<close>: the head moves by \<open>(dx, dy)\<close>, segment \<open>i \<ge> 1\<close> takes the
  position segment \<open>i - 1\<close> had before the move.\<close>

definition moveSegments :: "jsnum \<Rightarrow> jsnum \<Rightarrow> Snake \<Rightarrow> Snake" where
  "moveSegments dx dy s =
     (case segments s of
        [] \<Rightarrow> s
      | h # body \<Rightarrow>
          s\<lparr>segments :=
               h\<lparr>seg_x := js_add (seg_x h) dx, seg_y := js_add (seg_y h) dy\<rparr> #
               map2 (\<lambda>seg previous. seg\<lparr>seg_x := seg_x previous, seg_y := seg_y previous\<rparr>)
                    body (butlast (h # body))\<rparr>)"

definition Snake_update :: "real \<Rightarrow> Snake \<Rightarrow> Snake" where
  "Snake_update deltaTime s =
     (if \<not> alive s then s
      else
        let s1 = (if boostCooldown s > 0
                  then s\<lparr>boostCooldown := boostCooldown s - deltaTime * 1000\<rparr> else s);
            s2 = (if invulnerabilityTime s1 > 0
                  then (let t = invulnerabilityTime s1 - deltaTime * 1000
                        in s1\<lparr>invulnerabilityTime := t,
                              invulnerable := (if t \<le> 0 then False else invulnerable s1)\<rparr>)
                  else s1);
            s3 = s2\<lparr>direction := nextDirection s2\<rparr>;
            moveX = js_add (Some (fst (direction s3) * speed s3))
                           (js_mul (fst (gravitationalForce s3)) (Some 0.3));
            moveY = js_add (Some (snd (direction s3) * speed s3))
                           (js_mul (snd (gravitationalForce s3)) (Some 0.3));
            s4 = moveSegments (Math_round moveX) (Math_round moveY) s3
        in s4\<lparr>gravitationalForce := (Some 0, Some 0)\<rparr>)"

definition getHead :: "Snake \<Rightarrow> segment option" where
  "getHead s = (case segments s of [] \<Rightarrow> None | h # _ \<Rightarrow> Some h)"

definition getEffectLevel :: "string \<Rightarrow> Snake \<Rightarrow> nat" where
  "getEffectLevel effectName s =
     (case activePowerUps s effectName of Some p \<Rightarrow> pu_level p | None \<Rightarrow> 0)"

text \<open>The loop of \<^verbatim>\<open>removeArmoredSegment\<close>, \<open>i\<close> from \<open>length - 1\<close> down to 1: the index of
  the last armoured segment behind the head, if there is one.\<close>

fun findArmored :: "nat \<Rightarrow> segment list \<Rightarrow> nat option" where
  "findArmored 0 segs = None"
| "findArmored (Suc j) segs =
     (if seg_type (segs ! Suc j) = ''armored'' then Some (Suc j) else findArmored j segs)"

definition removeArmoredSegment :: "Snake \<Rightarrow> Snake" where
  "removeArmoredSegment s =
     (case findArmored (length (segments s) - 1) (segments s) of
        None \<Rightarrow> s
      | Some i \<Rightarrow>
          updateSegmentEffects (s\<lparr>segments := take i (segments s) @ drop (Suc i) (segments s)\<rparr>))"

text \<open>\<^verbatim>\<open>takeDamage\<close>; \<open>r\<close> is the value of \<^verbatim>\<open>Math.random()\<close>, a number in \<open>[0, 1)\<close>,
  drawn only when the armour level is positive.  The result is \<^verbatim>\<open>true\<close> when the snake
  died.\<close>

definition Snake_takeDamage :: "real \<Rightarrow> Snake \<Rightarrow> bool \<times> Snake" where
  "Snake_takeDamage r s =
     (if invulnerable s then (False, s)
      else
        let armorLevel = getEffectLevel ''armor'' s;
            survivalChance = min (real armorLevel * 0.2) 0.8
        in if armorLevel > 0 \<and> r < survivalChance
           then (False, setInvulnerable 1000 (removeArmoredSegment s))
           else (True, s\<lparr>alive := False\<rparr>))"

definition Snake_inv :: "Snake \<Rightarrow> bool" where
  "Snake_inv s =
     (segments s \<noteq> [] \<and> seg_type (hd (segments s)) = ''head'' \<and>
      getEffectLevel ''armor'' s = countType ''armored'' (segments s))"

section \<open>GravityWell (class \<^verbatim>\<open>GravityWell\<close> of src/unnamed/part_001)\<close>

text \<open>The fields of a \<^verbatim>\<open>GravityWell\<close> that the simulation reads; the particles and colours
  only feed the rendering.\<close>

record GravityWell =
  gw_x :: real
  gw_y :: real
  strength :: real
  radius :: real
  gw_type :: string
  active :: bool
  phase :: real
  pulseTimer :: real
  vortexRotation :: real

definition GravityWell_new :: "real \<Rightarrow> real \<Rightarrow> real \<Rightarrow> real \<Rightarrow> string \<Rightarrow> GravityWell" where
  "GravityWell_new px py str rad t =
     \<lparr>gw_x = px, gw_y = py, strength = str, radius = rad, gw_type = t,
      active = True, phase = 0, pulseTimer = 0, vortexRotation = 0\<rparr>"

definition GravityWell_update :: "real \<Rightarrow> GravityWell \<Rightarrow> GravityWell" where
  "GravityWell_update deltaTime w =
     (if \<not> active w then w
      else
        let w1 = w\<lparr>phase := phase w + deltaTime\<rparr>
        in if gw_type w1 = ''pulse''
           then (let t = pulseTimer w1 + deltaTime
                 in w1\<lparr>pulseTimer := (if t \<ge> 2 then 0 else t)\<rparr>)
           else if gw_type w1 = ''vortex''
           then w1\<lparr>vortexRotation := vortexRotation w1 + deltaTime * 2\<rparr>
           else w1)"

definition calculateAttractiveForce :: "GravityWell \<Rightarrow> jsnum \<Rightarrow> jsnum \<Rightarrow> jsnum \<Rightarrow> bool \<Rightarrow> jsnum" where
  "calculateAttractiveForce w dx dy distance isY =
     (if js_eq distance (Some 0) then Some 0
      else
        let component = (if isY then dy else dx);
            force = js_div (js_mul (Some (strength w)) component)
                           (js_add (js_mul distance distance) (Some 1))
        in Math_max (Some (- 0.5)) (Math_min (Some 0.5) force))"

definition calculateTangentialForce :: "GravityWell \<Rightarrow> jsnum \<Rightarrow> jsnum \<Rightarrow> jsnum \<Rightarrow> jsnum" where
  "calculateTangentialForce w dx dy distance =
     js_div (Some (strength w * 0.3)) (js_add distance (Some 1))"

text \<open>The \<^verbatim>\<open>switch\<close> of \<^verbatim>\<open>applyGravity\<close>: the pair \<open>(forceX, forceY)\<close> for each type; both
  stay 0 for a type that is none of the four.\<close>

definition switchForce :: "GravityWell \<Rightarrow> jsnum \<Rightarrow> jsnum \<Rightarrow> jsnum \<Rightarrow> jsnum \<times> jsnum" where
  "switchForce w dx dy distance =
     (if gw_type w = ''attract''
      then (calculateAttractiveForce w dx dy distance False,
            calculateAttractiveForce w dx dy distance True)
      else if gw_type w = ''repel''
      then (js_neg (calculateAttractiveForce w dx dy distance False),
            js_neg (calculateAttractiveForce w dx dy distance True))
      else if gw_type w = ''vortex''
      then (let attractForce = calculateAttractiveForce w dx dy distance False;
                tangentForce = calculateTangentialForce w dx dy distance
            in (js_sub attractForce (js_mul (js_div dy distance) tangentForce),
                js_add (calculateAttractiveForce w dx dy distance True)
                       (js_mul (js_div dx distance) tangentForce)))
      else if gw_type w = ''pulse''
      then (let pulseIntensity = sin (phase w * 3) * 0.5 + 0.5;
                baseForce = js_mul (calculateAttractiveForce w dx dy distance False)
                                   (Some pulseIntensity)
            in (baseForce,
                js_mul (calculateAttractiveForce w dx dy distance True) (Some pulseIntensity)))
      else (Some 0, Some 0))"

text \<open>\<^verbatim>\<open>applyGravity\<close> returns the snake after the call; \<open>None\<close> is the \<^verbatim>\<open>TypeError\<close> of
  reading \<^verbatim>\<open>head.x\<close> when the snake has no segment.  The constant 20 is the grid cell
  size in pixels.\<close>

definition applyGravity :: "GravityWell \<Rightarrow> Snake \<Rightarrow> Snake option" where
  "applyGravity w snake =
     (if \<not> active w \<or> \<not> alive snake then Some snake
      else case getHead snake of
             None \<Rightarrow> None
           | Some head \<Rightarrow>
               (let dx = js_sub (Some (gw_x w)) (js_add (seg_x head) (Some 0.5));
                    dy = js_sub (Some (gw_y w)) (js_add (seg_y head) (Some 0.5));
                    distance = Math_sqrt (js_add (js_mul dx dx) (js_mul dy dy))
                in if js_greater distance (Some (radius w / 20)) then Some snake
                   else (let force = switchForce w dx dy distance
                         in Some (applyGravitationalForce (fst force) (snd force) snake))))"

definition isInRange :: "GravityWell \<Rightarrow> real \<Rightarrow> real \<Rightarrow> bool" where
  "isInRange w px py =
     (let dx = gw_x w - px; dy = gw_y w - py; distance = sqrt (dx * dx + dy * dy)
      in distance \<le> radius w)"

text \<open>For the statements: the distance between the well and the centre of the head's cell,
  and the attract law in the words of the specification,
  \<open>clamp (strength * component / (distance\<^sup>2 + 1)) (- max) max\<close> with \<open>max = 0.5\<close>.\<close>

definition headOffset :: "GravityWell \<Rightarrow> real \<Rightarrow> real \<Rightarrow> real \<times> real" where
  "headOffset w hx hy = (gw_x w - (hx + 0.5), gw_y w - (hy + 0.5))"

definition headDistance :: "GravityWell \<Rightarrow> real \<Rightarrow> real \<Rightarrow> real" where
  "headDistance w hx hy =
     sqrt (fst (headOffset w hx hy) * fst (headOffset w hx hy) +
           snd (headOffset w hx hy) * snd (headOffset w hx hy))"

definition maxForce :: real where
  "maxForce = 0.5"

definition attractLaw :: "real \<Rightarrow> real \<Rightarrow> real \<Rightarrow> real" where
  "attractLaw str component distance =
     max (- maxForce) (min maxForce (str * component / (distance\<^sup>2 + 1)))"

section \<open>ConstellationManager (src/src/systems/constellation-manager.js)\<close>

text \<open>
  The \<^verbatim>\<open>patterns\<close> object is an association list in the insertion order that
  \<^verbatim>\<open>Object.keys\<close> returns; \<^verbatim>\<open>collectedStars\<close> is a finite set.  \<^verbatim>\<open>Math.random()\<close> is the
  parameter \<open>r\<close>, \<^verbatim>\<open>Date.now()\<close> the parameter \<open>now\<close>.  A \<^verbatim>\<open>setTimeout\<close> call is recorded in
  \<open>pendingTimeouts\<close> with its delay and the argument its callback will pass to
  \<^verbatim>\<open>setPattern\<close>.  Accented letters in the names are written as their UTF-8 bytes.
\<close>

record pattern =
  pat_name :: string
  stars :: "string list"
  description :: string
  bonus :: nat
  colors :: "string list"

record completion =
  done_pattern :: string
  done_name :: string
  completedAt :: int
  done_bonus :: nat

record ConstellationManager =
  patterns :: "(string \<times> pattern) list"
  currentPattern :: "pattern option"
  collectedStars :: "string fset"
  targetPattern :: string
  morphingActive :: bool
  morphTimer :: real
  completedPatterns :: "completion list"
  recentPatterns :: "string list"
  pendingTimeouts :: "(real \<times> string option) list"

definition initialPatterns :: "(string \<times> pattern) list" where
  "initialPatterns =
     [(''triangle'',
       \<lparr>pat_name = ''Triangle C'' @ [CHR 0xC3, CHR 0xA9] @ ''leste'',
        stars = [''alpha'', ''beta'', ''gamma''],
        description = ''Formez un triangle parfait'',
        bonus = 150,
        colors = [''#ff6b6b'', ''#4ecdc4'', ''#45b7d1'']\<rparr>),
      (''cross'',
       \<lparr>pat_name = ''Croix Stellaire'',
        stars = [''north'', ''south'', ''east'', ''west'', ''center''],
        description = ''Alignez les '' @ [CHR 0xC3, CHR 0xA9] @ ''toiles cardinales'',
        bonus = 200,
        colors = [''#96ceb4'', ''#feca57'', ''#ff9ff3'', ''#54a0ff'', ''#5f27cd'']\<rparr>),
      (''spiral'',
       \<lparr>pat_name = ''Spirale Cosmique'',
        stars = [''core'', ''arm1'', ''arm2'', ''arm3'', ''arm4'', ''arm5''],
        description = ''Suivez la spirale galactique'',
        bonus = 300,
        colors = [''#ffffff'', ''#ffd700'', ''#ff6b6b'', ''#4ecdc4'', ''#45b7d1'', ''#96ceb4'']\<rparr>),
      (''diamond'',
       \<lparr>pat_name = ''Diamant '' @ [CHR 0xC3, CHR 0x89] @ ''ternel'',
        stars = [''top'', ''left'', ''right'', ''bottom''],
        description = ''Cr'' @ [CHR 0xC3, CHR 0xA9] @ ''ez un diamant brillant'',
        bonus = 180,
        colors = [''#e056fd'', ''#686de0'', ''#4834d4'', ''#30336b'']\<rparr>)]"

definition setPattern :: "string \<Rightarrow> ConstellationManager \<Rightarrow> ConstellationManager" where
  "setPattern patternName m =
     (case map_of (patterns m) patternName of
        None \<Rightarrow> m
      | Some p \<Rightarrow>
          m\<lparr>currentPattern := Some p, targetPattern := patternName,
            collectedStars := {||}, morphingActive := False, morphTimer := 0\<rparr>)"

definition ConstellationManager_new :: ConstellationManager where
  "ConstellationManager_new =
     setPattern ''triangle''
       \<lparr>patterns = initialPatterns, currentPattern = None, collectedStars = {||},
        targetPattern = ''triangle'', morphingActive = False, morphTimer = 0,
        completedPatterns = [], recentPatterns = [], pendingTimeouts = []\<rparr>"

text \<open>\<^verbatim>\<open>xs[Math.floor(r * xs.length)]\<close>; an index outside the array reads
  \<^verbatim>\<open>undefined\<close> (\<open>None\<close>).\<close>

definition randomElement :: "real \<Rightarrow> string list \<Rightarrow> string option" where
  "randomElement r xs =
     (let i = \<lfloor>r * real (length xs)\<rfloor>
      in if 0 \<le> i \<and> i < int (length xs) then Some (xs ! nat i) else None)"

definition selectRandomPattern :: "real \<Rightarrow> ConstellationManager \<Rightarrow> string option" where
  "selectRandomPattern r m = randomElement r (map fst (patterns m))"

definition selectNextPattern :: "real \<Rightarrow> ConstellationManager \<Rightarrow> string option \<times> ConstellationManager" where
  "selectNextPattern r m =
     (let availablePatterns =
            filter (\<lambda>p. p \<notin> set (recentPatterns m)) (map fst (patterns m))
      in if length availablePatterns = 0
         then (let m1 = m\<lparr>recentPatterns := []\<rparr> in (selectRandomPattern r m1, m1))
         else
           let nextPattern = randomElement r availablePatterns;
               pushed = recentPatterns m @ [targetPattern m];
               shifted = (if length pushed > 2 then tl pushed else pushed)
           in (nextPattern, m\<lparr>recentPatterns := shifted\<rparr>))"

definition startMorphing :: "real \<Rightarrow> ConstellationManager \<Rightarrow> ConstellationManager" where
  "startMorphing r m =
     (let m1 = m\<lparr>morphingActive := True, morphTimer := 3000\<rparr>;
          sel = selectNextPattern r m1;
          nextPattern = fst sel;
          m2 = snd sel
      in m2\<lparr>pendingTimeouts := pendingTimeouts m2 @ [(morphTimer m2, nextPattern)]\<rparr>)"

text \<open>\<^verbatim>\<open>completeConstellation\<close> reads \<^verbatim>\<open>this.currentPattern.name\<close>: with no current
  pattern that is a \<^verbatim>\<open>TypeError\<close> (\<open>None\<close>).\<close>

definition completeConstellation :: "real \<Rightarrow> int \<Rightarrow> ConstellationManager \<Rightarrow> (bool \<times> ConstellationManager) option" where
  "completeConstellation r now m =
     (case currentPattern m of
        None \<Rightarrow> None
      | Some cp \<Rightarrow>
          Some (True,
            startMorphing r
              (m\<lparr>completedPatterns := completedPatterns m @
                   [\<lparr>done_pattern = targetPattern m, done_name = pat_name cp,
                     completedAt = now, done_bonus = bonus cp\<rparr>]\<rparr>)))"

definition collectStar :: "string \<Rightarrow> real \<Rightarrow> int \<Rightarrow> ConstellationManager \<Rightarrow> (bool \<times> ConstellationManager) option" where
  "collectStar starType r now m =
     (case currentPattern m of
        None \<Rightarrow> Some (False, m)
      | Some cp \<Rightarrow>
          if starType \<notin> set (stars cp) then Some (False, m)
          else if starType |\<in>| collectedStars m then Some (False, m)
          else
            let m1 = m\<lparr>collectedStars := finsert starType (collectedStars m)\<rparr>
            in if fcard (collectedStars m1) = length (stars cp)
               then completeConstellation r now m1
               else Some (False, m1))"

definition ConstellationManager_update :: "real \<Rightarrow> ConstellationManager \<Rightarrow> ConstellationManager" where
  "ConstellationManager_update deltaTime m =
     (if morphingActive m \<and> morphTimer m > 0
      then (let t = morphTimer m - deltaTime * 1000
            in m\<lparr>morphTimer := t, morphingActive := (if t \<le> 0 then False else morphingActive m)\<rparr>)
      else m)"

text \<open>The callback of the oldest pending timeout runs: \<^verbatim>\<open>this.setPattern(nextPattern)\<close>,
  where an \<^verbatim>\<open>undefined\<close> name is no key of \<^verbatim>\<open>patterns\<close>.\<close>

definition fireTimeout :: "ConstellationManager \<Rightarrow> ConstellationManager" where
  "fireTimeout m =
     (case pendingTimeouts m of
        [] \<Rightarrow> m
      | (delay, nextPattern) # rest \<Rightarrow>
          (let m1 = m\<lparr>pendingTimeouts := rest\<rparr>
           in case nextPattern of None \<Rightarrow> m1 | Some patternName \<Rightarrow> setPattern patternName m1))"

definition getNeededStars :: "ConstellationManager \<Rightarrow> string list" where
  "getNeededStars m =
     (case currentPattern m of
        None \<Rightarrow> []
      | Some cp \<Rightarrow> filter (\<lambda>star. star |\<notin>| collectedStars m) (stars cp))"

section \<open>GameEngine: collisions between snakes (src/unnamed/part_002)\<close>

text \<open>
  The part of the engine that the collision pass between snakes reads and writes.  The
  player's snake is one object, the enemy snakes are objects on a heap addressed by
  natural numbers, and \<^verbatim>\<open>this.enemies\<close> is the list of their addresses, so that a snake
  taken out of the list is still the object that \<^verbatim>\<open>allSnakes\<close> refers to.  Calls to the
  audio manager change nothing of the simulation and are left out.
\<close>

datatype snake_ref = PlayerRef | EnemyRef nat

record GameEngine =
  gridWidth :: int
  gridHeight :: int
  gameState :: string
  score :: int
  lives :: int
  playerSnake :: Snake
  snakeHeap :: "nat \<Rightarrow> Snake"
  enemies :: "nat list"

definition deref :: "GameEngine \<Rightarrow> snake_ref \<Rightarrow> Snake" where
  "deref e r = (case r of PlayerRef \<Rightarrow> playerSnake e | EnemyRef a \<Rightarrow> snakeHeap e a)"

definition assign :: "snake_ref \<Rightarrow> Snake \<Rightarrow> GameEngine \<Rightarrow> GameEngine" where
  "assign r s e =
     (case r of PlayerRef \<Rightarrow> e\<lparr>playerSnake := s\<rparr>
      | EnemyRef a \<Rightarrow> e\<lparr>snakeHeap := (snakeHeap e)(a := s)\<rparr>)"

definition respawnPlayer :: "GameEngine \<Rightarrow> GameEngine" where
  "respawnPlayer e =
     (let startX = gridWidth e div 2;
          startY = gridHeight e div 2
      in e\<lparr>playerSnake :=
             setInvulnerable 2000 (Snake_reset (of_int startX) (of_int startY) (playerSnake e))\<rparr>)"

text \<open>\<^verbatim>\<open>handleSnakeCollision\<close>: the player loses a life and is respawned, or the game is
  stopped; an enemy that is in the list is spliced out of it (\<^verbatim>\<open>indexOf\<close> finds the first
  occurrence of its reference; the player's snake is not in the list).\<close>

definition handleSnakeCollision :: "snake_ref \<Rightarrow> GameEngine \<Rightarrow> GameEngine" where
  "handleSnakeCollision r e =
     (if snake_type (deref e r) = ''player''
      then (let e1 = e\<lparr>lives := lives e - 1\<rparr>
            in if lives e1 \<le> 0 then e1\<lparr>gameState := ''stopped''\<rparr> else respawnPlayer e1)
      else (case r of
              PlayerRef \<Rightarrow> e
            | EnemyRef a \<Rightarrow>
                if a \<in> set (enemies e)
                then e\<lparr>enemies := remove1 a (enemies e), score := score e + 50\<rparr>
                else e))"

text \<open>\<^verbatim>\<open>snake.grow()\<close> on a reference, with the default segment type.\<close>

definition growRef :: "snake_ref \<Rightarrow> GameEngine \<Rightarrow> GameEngine option" where
  "growRef r e =
     (case Snake_grow ''normal'' (deref e r) of None \<Rightarrow> None | Some s \<Rightarrow> Some (assign r s e))"

definition handleSnakeVsSnakeCollision :: "snake_ref \<Rightarrow> snake_ref \<Rightarrow> GameEngine \<Rightarrow> GameEngine option" where
  "handleSnakeVsSnakeCollision snake1 snake2 e =
     (if length (segments (deref e snake1)) > length (segments (deref e snake2))
      then growRef snake1 (handleSnakeCollision snake2 e)
      else if length (segments (deref e snake2)) > length (segments (deref e snake1))
      then growRef snake2 (handleSnakeCollision snake1 e)
      else Some (handleSnakeCollision snake2 (handleSnakeCollision snake1 e)))"

text \<open>\<^verbatim>\<open>checkSnakeCollision\<close>: the head of the first snake on any segment of the second.
  \<^verbatim>\<open>some\<close> calls its predicate only on a non-empty array; the predicate reads
  \<^verbatim>\<open>head1.x\<close>, a \<^verbatim>\<open>TypeError\<close> (\<open>None\<close>) when the first snake has no segment.\<close>

definition checkSnakeCollision :: "Snake \<Rightarrow> Snake \<Rightarrow> bool option" where
  "checkSnakeCollision snake1 snake2 =
     (case segments snake2 of
        [] \<Rightarrow> Some False
      | _ # _ \<Rightarrow>
          (case getHead snake1 of
             None \<Rightarrow> None
           | Some head1 \<Rightarrow>
               Some (list_ex (\<lambda>segment. js_eq (seg_x head1) (seg_x segment) \<and>
                                         js_eq (seg_y head1) (seg_y segment))
                             (segments snake2))))"

text \<open>The pairs \<open>(allSnakes[i], allSnakes[j])\<close> with \<open>i < j\<close>, in the order of the two
  loops of \<^verbatim>\<open>checkSnakeVsSnakeCollisions\<close>, and the loop body.\<close>

fun allPairs :: "'a list \<Rightarrow> ('a \<times> 'a) list" where
  "allPairs [] = []"
| "allPairs (x # xs) = map (Pair x) xs @ allPairs xs"

fun collidePairs :: "(snake_ref \<times> snake_ref) list \<Rightarrow> GameEngine \<Rightarrow> GameEngine option" where
  "collidePairs [] e = Some e"
| "collidePairs ((snake1, snake2) # rest) e =
     (case checkSnakeCollision (deref e snake1) (deref e snake2) of
        None \<Rightarrow> None
      | Some collides \<Rightarrow>
          if collides
          then (case handleSnakeVsSnakeCollision snake1 snake2 e of
                  None \<Rightarrow> None
                | Some e' \<Rightarrow> collidePairs rest e')
          else collidePairs rest e)"

definition checkSnakeVsSnakeCollisions :: "GameEngine \<Rightarrow> GameEngine option" where
  "checkSnakeVsSnakeCollisions e =
     collidePairs (allPairs (PlayerRef # map EnemyRef (enemies e))) e"

definition cleanupEntities :: "GameEngine \<Rightarrow> GameEngine" where
  "cleanupEntities e = e\<lparr>enemies := filter (\<lambda>a. alive (snakeHeap e a)) (enemies e)\<rparr>"





text \<open>An engine with two enemies.  The player's head and the head of enemy 1, both snakes
  of one segment, are on the cell \<open>(10, 10)\<close>; enemy 0 has its head on \<open>(11, 10)\<close> and its
  second segment on \<open>(10, 10)\<close> (a snake created on \<open>(10, 10)\<close> that grew and then moved
  one cell to the right).\<close>

definition trioEngine :: GameEngine where
  "trioEngine =
     \<lparr>gridWidth = 40, gridHeight = 30, gameState = ''running'', score = 0, lives = 3,
      playerSnake = Snake_new 10 10 ''player'',
      snakeHeap = (\<lambda>a. if a = 0
                        then (Snake_new 11 10 ''enemy'')
                               \<lparr>segments := [\<lparr>seg_x = Some 11, seg_y = Some 10, seg_type = ''head''\<rparr>,
                                             \<lparr>seg_x = Some 10, seg_y = Some 10, seg_type = ''normal''\<rparr>]\<rparr>
                        else Snake_new 10 10 ''enemy''),
      enemies = [0, 1]\<rparr>"

section \<open>Properties\<close>

subsection \<open>SpatialHash: registration and the index invariant\<close>

lemma addToCells_apply:
  "addToCells obj keys c key =
     (if key \<in> set keys then Some (insert obj (case c key of None \<Rightarrow> {} | Some S \<Rightarrow> S))
      else c key)"
proof (induction keys arbitrary: c)
  case Nil
  show ?case by simp
next
  case (Cons k ks)
  show ?case
    by (simp add: Cons.IH addToCell_def split: option.splits)
qed

lemma removeFromCells_apply:
  "removeFromCells obj keys c key =
     (if key \<in> set keys
      then (case c key of None \<Rightarrow> None
            | Some S \<Rightarrow> if S - {obj} = {} then None else Some (S - {obj}))
      else c key)"
proof (induction keys arbitrary: c)
  case Nil
  show ?case by (simp split: option.splits)
next
  case (Cons k ks)
  show ?case
    by (auto simp add: Cons.IH removeFromCell_def split: option.splits)
qed

lemma getObjectCells_refreshStats [simp]:
  "getObjectCells (refreshStats h) = getObjectCells h"
  by (simp add: fun_eq_iff getObjectCells_def refreshStats_def)

lemma set_getObjectCells:
  "set (getObjectCells h px py w ht) =
     {\<lfloor>px / cellSize h\<rfloor>..\<lfloor>(px + w - 1) / cellSize h\<rfloor>} \<times>
     {\<lfloor>py / cellSize h\<rfloor>..\<lfloor>(py + ht - 1) / cellSize h\<rfloor>}"
  by (auto simp add: getObjectCells_def Let_def)




lemma obj_in_occupants:
  "objects h obj = Some d \<Longrightarrow> key \<in> set (cellKeys d) \<Longrightarrow> obj \<in> occupants h key"
  by (auto simp add: occupants_def)




lemma SpatialHash_remove_cellSize [simp]:
  "cellSize (snd (SpatialHash_remove obj h)) = cellSize h"
  by (auto simp add: SpatialHash_remove_def refreshStats_def split: option.splits)

lemma getObjectCells_cong:
  "cellSize h = cellSize h' \<Longrightarrow> getObjectCells h = getObjectCells h'"
  by (simp add: fun_eq_iff getObjectCells_def)












text \<open>The three ways \<^verbatim>\<open>update\<close> treats a registered object.\<close>

lemma SpatialHash_update_same:
  assumes "objects h obj = Some d"
    and "obj_x d = newX \<and> obj_y d = newY \<and> obj_width d = newWidth \<and> obj_height d = newHeight"
  shows "SpatialHash_update now obj newX newY newWidth newHeight h = h"
  using assms by (simp add: SpatialHash_update_def)

lemma SpatialHash_update_moved:
  assumes some: "objects h obj = Some d"
    and differs: "\<not> (obj_x d = newX \<and> obj_y d = newY \<and> obj_width d = newWidth \<and> obj_height d = newHeight)"
    and cells_differ: "\<not> arraysEqual (cellKeys d) (getObjectCells h newX newY newWidth newHeight)"
  shows "SpatialHash_update now obj newX newY newWidth newHeight h =
           h\<lparr>cells := addToCells obj (getObjectCells h newX newY newWidth newHeight)
                         (removeFromCells obj (cellKeys d) (cells h)),
             objects := (objects h)(obj \<mapsto>
                \<lparr>cellKeys = getObjectCells h newX newY newWidth newHeight, obj_x = newX, obj_y = newY,
                 obj_width = newWidth, obj_height = newHeight, lastUpdate = now\<rparr>)\<rparr>"
proof -
  have ns: "(obj_x d = newX \<and> obj_y d = newY \<and> obj_width d = newWidth \<and> obj_height d = newHeight) = False"
    using differs by blast
  show ?thesis
    unfolding SpatialHash_update_def using some cells_differ
    by (simp only: option.case ns if_False Let_def not_True_eq_False simp_thms if_True)
qed

lemma SpatialHash_update_within:
  assumes some: "objects h obj = Some d"
    and differs: "\<not> (obj_x d = newX \<and> obj_y d = newY \<and> obj_width d = newWidth \<and> obj_height d = newHeight)"
    and cells_same: "arraysEqual (cellKeys d) (getObjectCells h newX newY newWidth newHeight)"
  shows "SpatialHash_update now obj newX newY newWidth newHeight h =
           h\<lparr>objects := (objects h)(obj \<mapsto>
                d\<lparr>obj_x := newX, obj_y := newY, obj_width := newWidth,
                  obj_height := newHeight, lastUpdate := now\<rparr>)\<rparr>"
proof -
  have ns: "(obj_x d = newX \<and> obj_y d = newY \<and> obj_width d = newWidth \<and> obj_height d = newHeight) = False"
    using differs by blast
  show ?thesis
    unfolding SpatialHash_update_def using some cells_same
    by (simp only: option.case ns if_False Let_def not_not simp_thms if_True)
qed




lemma SpatialHash_update_cellSize [simp]:
  "cellSize (SpatialHash_update now obj px py w ht h) = cellSize h"
proof (cases "objects h obj")
  case None
  then show ?thesis by (simp add: SpatialHash_update_def SpatialHash_add_def Let_def refreshStats_def)
next
  case (Some d)
  let ?new = "getObjectCells h px py w ht"
  consider
    (same) "obj_x d = px \<and> obj_y d = py \<and> obj_width d = w \<and> obj_height d = ht"
  | (moved) "\<not> (obj_x d = px \<and> obj_y d = py \<and> obj_width d = w \<and> obj_height d = ht)"
      "\<not> arraysEqual (cellKeys d) ?new"
  | (within) "\<not> (obj_x d = px \<and> obj_y d = py \<and> obj_width d = w \<and> obj_height d = ht)"
      "arraysEqual (cellKeys d) ?new"
    by blast
  then show ?thesis
  proof cases
    case same
    show ?thesis by (simp only: SpatialHash_update_same [OF Some same])
  next
    case moved
    show ?thesis by (simp add: SpatialHash_update_moved [OF Some moved])
  next
    case within
    show ?thesis by (simp add: SpatialHash_update_within [OF Some within])
  qed
qed





lemma start_cell_in_getObjectCells:
  assumes "0 < cellSize h" "1 \<le> w" "1 \<le> ht"
  shows "getCellKey h px py \<in> set (getObjectCells h px py w ht)"
proof -
  have "px / cellSize h \<le> (px + w - 1) / cellSize h"
    using assms by (simp add: divide_right_mono)
  then have x: "\<lfloor>px / cellSize h\<rfloor> \<le> \<lfloor>(px + w - 1) / cellSize h\<rfloor>" by (rule floor_mono)
  have "py / cellSize h \<le> (py + ht - 1) / cellSize h"
    using assms by (simp add: divide_right_mono)
  then have y: "\<lfloor>py / cellSize h\<rfloor> \<le> \<lfloor>(py + ht - 1) / cellSize h\<rfloor>" by (rule floor_mono)
  show ?thesis using x y by (simp add: set_getObjectCells getCellKey_def)
qed

lemma SpatialHash_add_cells:
  "cells (SpatialHash_add now obj px py w ht h) =
     addToCells obj (getObjectCells h px py w ht) (cells (snd (SpatialHash_remove obj h)))"
proof -
  have "getObjectCells (snd (SpatialHash_remove obj h)) = getObjectCells h"
    by (rule getObjectCells_cong) simp
  then show ?thesis by (simp add: SpatialHash_add_def Let_def refreshStats_def)
qed

lemma SpatialHash_add_objects:
  "objects (SpatialHash_add now obj px py w ht h) obj =
     Some \<lparr>cellKeys = getObjectCells h px py w ht, obj_x = px, obj_y = py,
           obj_width = w, obj_height = ht, lastUpdate = now\<rparr>"
proof -
  have "getObjectCells (snd (SpatialHash_remove obj h)) = getObjectCells h"
    by (rule getObjectCells_cong) simp
  then show ?thesis by (simp add: SpatialHash_add_def Let_def refreshStats_def)
qed

lemma SpatialHash_add_cellSize [simp]:
  "cellSize (SpatialHash_add now obj px py w ht h) = cellSize h"
  by (simp add: SpatialHash_add_def Let_def refreshStats_def)

lemma queryPoint_after_add:
  assumes "0 < cellSize h" "1 \<le> w" "1 \<le> ht"
  shows "obj \<in> fst (queryPoint (SpatialHash_add now obj px py w ht h) px py 0)"
proof -
  let ?h' = "SpatialHash_add now obj px py w ht h"
  have k: "getCellKey ?h' px py \<in> set (getObjectCells h px py w ht)"
    using start_cell_in_getObjectCells [OF assms, of px py] by (simp add: getCellKey_def)
  have "obj \<in> cellObjects ?h' (getCellKey ?h' px py)"
    using k by (simp add: cellObjects_def SpatialHash_add_cells addToCells_apply)
  then show ?thesis by (simp add: queryPoint_def Let_def)
qed

lemma absent_after_remove:
  assumes "objects h obj = Some d" "key \<in> set (cellKeys d)"
  shows "obj \<notin> cellObjects (snd (SpatialHash_remove obj h)) key"
  using assms
  by (simp add: cellObjects_def SpatialHash_remove_def refreshStats_def removeFromCells_apply
        split: option.splits)

text \<open>
  Claim C1, as the code has it.  With a positive cell size and a width and height of at
  least 1, \<^verbatim>\<open>queryPoint\<close> at the object's position with radius 0 returns the object after
  \<^verbatim>\<open>add\<close>.  For every size, \<^verbatim>\<open>remove\<close> then finds the object and leaves it in none of
  the cells \<^verbatim>\<open>add\<close> registered it in.  The code does not raise a zero or negative size
  to 1: see the counterexample below.
\<close>

theorem insert_then_query_then_remove:
  "(0 < cellSize h \<and> 1 \<le> w \<and> 1 \<le> ht \<longrightarrow>
      obj \<in> fst (queryPoint (SpatialHash_add now obj px py w ht h) px py 0)) \<and>
   fst (SpatialHash_remove obj (SpatialHash_add now obj px py w ht h)) \<and>
   (\<forall>key \<in> set (getObjectCells h px py w ht).
      obj \<notin> cellObjects (snd (SpatialHash_remove obj (SpatialHash_add now obj px py w ht h))) key)"
proof (intro conjI impI ballI)
  assume "0 < cellSize h \<and> 1 \<le> w \<and> 1 \<le> ht"
  then show "obj \<in> fst (queryPoint (SpatialHash_add now obj px py w ht h) px py 0)"
    by (simp add: queryPoint_after_add)
next
  show "fst (SpatialHash_remove obj (SpatialHash_add now obj px py w ht h))"
    by (simp add: SpatialHash_remove_def SpatialHash_add_objects)
next
  fix key
  assume "key \<in> set (getObjectCells h px py w ht)"
  then show "obj \<notin> cellObjects (snd (SpatialHash_remove obj (SpatialHash_add now obj px py w ht h))) key"
    by (intro absent_after_remove [OF SpatialHash_add_objects]) simp
qed

lemma getObjectCells_new_20_a: "getObjectCells (SpatialHash_new 20) 45 (-5) 1 30 = [(2, -1), (2, 0), (2, 1)]"
  by (simp add: getObjectCells_def SpatialHash_new_def upto.simps)

theorem insert_then_query_then_remove_witness:
  "(7::nat) \<in> fst (queryPoint (SpatialHash_add 0 7 45 (-5) 1 30 (SpatialHash_new 20)) 45 (-5) 0) \<and>
   (7::nat) \<notin> cellObjects (snd (SpatialHash_remove 7 (SpatialHash_add 0 7 45 (-5) 1 30 (SpatialHash_new 20)))) (2, -1) \<and>
   (7::nat) \<notin> cellObjects (snd (SpatialHash_remove 7 (SpatialHash_add 0 7 45 (-5) 1 30 (SpatialHash_new 20)))) (2, 0) \<and>
   (7::nat) \<notin> cellObjects (snd (SpatialHash_remove 7 (SpatialHash_add 0 7 45 (-5) 1 30 (SpatialHash_new 20)))) (2, 1)"
  using insert_then_query_then_remove [of "SpatialHash_new 20 :: nat SpatialHash" 1 30 7 0 45 "-5"]
  by (simp add: getObjectCells_new_20_a) (simp add: SpatialHash_new_def)

text \<open>
  Cell size 20, an object of width 0 added at \<open>x = 20\<close>: the loop over \<open>cellX\<close> runs from
  1 to \<open>\<lfloor>19 / 20\<rfloor> = 0\<close>, so the object is registered in no cell and the point query at
  its position misses it.
\<close>

theorem zero_width_insert_counterexample:
  "(7::nat) \<notin> fst (queryPoint (SpatialHash_add 0 7 20 0 0 1 (SpatialHash_new 20)) 20 0 0)"
  by (simp add: queryPoint_def Let_def cellObjects_def getCellKey_def SpatialHash_add_cells
        getObjectCells_def SpatialHash_new_def SpatialHash_remove_def)





subsection \<open>Snake: direction buffering\<close>

lemma directions_cases:
  assumes "directions d = Some v"
  obtains (up) "d = ''up''" "v = (0, -1)" | (down) "d = ''down''" "v = (0, 1)"
    | (left) "d = ''left''" "v = (-1, 0)" | (right) "d = ''right''" "v = (1, 0)"
  using assms by (auto simp add: directions_def split: if_splits)

lemma setDirection_reverse_rejected:
  assumes "directions d = Some v" and "direction s = (- fst v, - snd v)"
  shows "Snake_setDirection d s = s"
  using assms(1)
proof (cases rule: directions_cases)
  case up
  then show ?thesis using assms(2)
    by (simp add: Snake_setDirection_def opposite_def getCurrentDirectionName_def)
next
  case down
  then show ?thesis using assms(2)
    by (simp add: Snake_setDirection_def opposite_def getCurrentDirectionName_def)
next
  case left
  then show ?thesis using assms(2)
    by (simp add: Snake_setDirection_def opposite_def getCurrentDirectionName_def)
next
  case right
  then show ?thesis using assms(2)
    by (simp add: Snake_setDirection_def opposite_def getCurrentDirectionName_def)
qed

lemma name_of_cardinal:
  assumes "directions c = Some (direction s)"
  shows "getCurrentDirectionName s = c"
  using assms
proof (cases rule: directions_cases)
  case up
  then show ?thesis by (simp add: getCurrentDirectionName_def)
next
  case down
  then show ?thesis by (simp add: getCurrentDirectionName_def)
next
  case left
  then show ?thesis by (simp add: getCurrentDirectionName_def)
next
  case right
  then show ?thesis by (simp add: getCurrentDirectionName_def)
qed

lemma perpendicular_not_opposite:
  assumes d: "directions d = Some v" and c: "directions c = Some w"
    and p: "fst v * fst w + snd v * snd w = 0"
  shows "opposite d \<noteq> Some c"
  using d
proof (cases rule: directions_cases)
  case up
  show ?thesis using c
    by (cases rule: directions_cases) (use up p in \<open>simp_all add: opposite_def\<close>)
next
  case down
  show ?thesis using c
    by (cases rule: directions_cases) (use down p in \<open>simp_all add: opposite_def\<close>)
next
  case left
  show ?thesis using c
    by (cases rule: directions_cases) (use left p in \<open>simp_all add: opposite_def\<close>)
next
  case right
  show ?thesis using c
    by (cases rule: directions_cases) (use right p in \<open>simp_all add: opposite_def\<close>)
qed

lemma setDirection_perpendicular_accepted:
  assumes "alive s" and d: "directions d = Some v" and c: "directions c = Some (direction s)"
    and p: "fst v * fst (direction s) + snd v * snd (direction s) = 0"
  shows "Snake_setDirection d s = s\<lparr>nextDirection := v\<rparr>"
  using assms(1) d perpendicular_not_opposite [OF d c p] name_of_cardinal [OF c]
  by (simp add: Snake_setDirection_def)

lemma setDirection_keeps_direction: "direction (Snake_setDirection d s) = direction s"
  by (simp add: Snake_setDirection_def)

lemma direction_moveSegments [simp]: "direction (moveSegments dx dy s) = direction s"
  by (simp add: moveSegments_def split: list.splits)

lemma update_commits_direction:
  "alive s \<Longrightarrow> direction (Snake_update deltaTime s) = nextDirection s"
  by (simp add: Snake_update_def Let_def)

text \<open>
  The other methods of the model leave \<open>direction\<close> alone, and \<^verbatim>\<open>update\<close> does nothing to
  a dead snake.
\<close>

lemma direction_frame:
  "direction (applyGravitationalForce fx fy s) = direction s"
  "direction (setInvulnerable t s) = direction s"
  "direction (removeArmoredSegment s) = direction s"
  "direction (snd (Snake_takeDamage r s)) = direction s"
  "Snake_grow segmentType s = Some s' \<Longrightarrow> direction s' = direction s"
  "\<not> alive s \<Longrightarrow> Snake_update deltaTime s = s"
proof -
  have u: "direction (updateSegmentEffects q) = direction q" for q
    by (simp add: updateSegmentEffects_def Let_def)
  show "direction (applyGravitationalForce fx fy s) = direction s"
    by (simp add: applyGravitationalForce_def)
  show "direction (setInvulnerable t s) = direction s"
    by (simp add: setInvulnerable_def)
  show rm: "direction (removeArmoredSegment s) = direction s"
    by (simp add: removeArmoredSegment_def u split: option.splits)
  show "direction (snd (Snake_takeDamage r s)) = direction s"
    by (simp add: Snake_takeDamage_def Let_def setInvulnerable_def rm)
  show "Snake_grow segmentType s = Some s' \<Longrightarrow> direction s' = direction s"
    by (auto simp add: Snake_grow_def Let_def u split: if_splits list.splits)
  show "\<not> alive s \<Longrightarrow> Snake_update deltaTime s = s"
    by (simp add: Snake_update_def)
qed

text \<open>
  Claim C6.  For a living snake, \<^verbatim>\<open>setDirection\<close> with the direction opposite to the current
  one changes nothing; with a direction perpendicular to the current one it stores that
  direction in \<open>nextDirection\<close>.  \<^verbatim>\<open>setDirection\<close> never changes \<open>direction\<close> itself; the
  next \<^verbatim>\<open>update\<close> of the living snake copies \<open>nextDirection\<close> into \<open>direction\<close>.
\<close>

theorem setDirection_buffered:
  "(alive s \<and> directions d = Some v \<and> direction s = (- fst v, - snd v) \<longrightarrow>
      Snake_setDirection d s = s) \<and>
   (alive s \<and> directions d = Some v \<and> directions c = Some (direction s) \<and>
    fst v * fst (direction s) + snd v * snd (direction s) = 0 \<longrightarrow>
      Snake_setDirection d s = s\<lparr>nextDirection := v\<rparr>) \<and>
   direction (Snake_setDirection d s) = direction s \<and>
   (alive s \<longrightarrow> direction (Snake_update deltaTime s) = nextDirection s)"
  using setDirection_reverse_rejected [of d v s]
    setDirection_perpendicular_accepted [of s d v c]
    setDirection_keeps_direction [of d s] update_commits_direction [of s deltaTime]
  by blast

theorem setDirection_buffered_witness:
  "Snake_setDirection ''left'' (Snake_new 10 10 ''player'') = Snake_new 10 10 ''player'' \<and>
   Snake_setDirection ''up'' (Snake_new 10 10 ''player'') =
     (Snake_new 10 10 ''player'')\<lparr>nextDirection := (0, -1)\<rparr> \<and>
   direction (Snake_setDirection ''up'' (Snake_new 10 10 ''player'')) = (1, 0) \<and>
   direction (Snake_update (1 / 5) (Snake_setDirection ''up'' (Snake_new 10 10 ''player''))) = (0, -1)"
proof -
  let ?s = "Snake_new 10 10 ''player''"
  have a: "alive ?s" and dir: "direction ?s = (1, 0)" by (simp_all add: Snake_new_def)
  have l: "directions ''left'' = Some (-1, 0)" and u: "directions ''up'' = Some (0, -1)"
    and r: "directions ''right'' = Some (1, 0)"
    by (simp_all add: directions_def)
  have 1: "Snake_setDirection ''left'' ?s = ?s"
    using setDirection_buffered [of ?s "''left''" "(-1, 0)" "''right''" 0] a l dir by simp
  have 2: "Snake_setDirection ''up'' ?s = ?s\<lparr>nextDirection := (0, -1)\<rparr>"
    using setDirection_buffered [of ?s "''up''" "(0, -1)" "''right''" 0] a u r dir by simp
  have 3: "direction (Snake_setDirection ''up'' ?s) = (1, 0)"
    using setDirection_buffered [of ?s "''up''" "(0, -1)" "''right''" 0] dir by simp
  have "alive (Snake_setDirection ''up'' ?s)" by (simp add: 2 a)
  then have 4: "direction (Snake_update (1 / 5) (Snake_setDirection ''up'' ?s)) = (0, -1)"
    using setDirection_buffered [of "Snake_setDirection ''up'' ?s" "''up''" "(0, -1)" "''right''" "1 / 5"]
    by (simp add: 2)
  show ?thesis using 1 2 3 4 by simp
qed

subsection \<open>Snake: damage and armour\<close>

lemma findArmored_Some:
  "findArmored i segs = Some k \<Longrightarrow> 0 < k \<and> k \<le> i \<and> seg_type (segs ! k) = ''armored''"
  by (induction i) (auto split: if_splits)

lemma findArmored_finds:
  "0 < k \<Longrightarrow> k \<le> i \<Longrightarrow> seg_type (segs ! k) = ''armored'' \<Longrightarrow> \<exists>j. findArmored i segs = Some j"
proof (induction i)
  case 0
  then show ?case by simp
next
  case (Suc i)
  show ?case
  proof (cases "seg_type (segs ! Suc i) = ''armored''")
    case True
    then show ?thesis by simp
  next
    case False
    with Suc.prems have "k \<le> i" by (cases "k = Suc i") auto
    with Suc.IH Suc.prems False show ?thesis by simp
  qed
qed

lemma countType_remove_nth:
  assumes "k < length segs"
  shows "countType t (take k segs @ drop (Suc k) segs) + (if seg_type (segs ! k) = t then 1 else 0)
         = countType t segs"
proof -
  have "segs = take k segs @ segs ! k # drop (Suc k) segs"
    using assms by (rule id_take_nth_drop)
  then have "countType t segs = countType t (take k segs @ segs ! k # drop (Suc k) segs)"
    by simp
  then show ?thesis by (simp add: countType_def)
qed

lemma countType_pos_index:
  "0 < countType t segs \<Longrightarrow> \<exists>k < length segs. seg_type (segs ! k) = t"
proof -
  assume "0 < countType t segs"
  then have "filter (\<lambda>seg. seg_type seg = t) segs \<noteq> []" by (simp add: countType_def)
  then obtain x where "x \<in> set segs" "seg_type x = t"
    by (auto simp add: filter_empty_conv)
  then show ?thesis by (auto simp add: in_set_conv_nth)
qed

lemma getEffectLevel_updateSegmentEffects [simp]:
  "getEffectLevel ''armor'' (updateSegmentEffects s) = countType ''armored'' (segments s)"
  by (simp add: getEffectLevel_def updateSegmentEffects_def Let_def)

lemma segments_updateSegmentEffects [simp]:
  "segments (updateSegmentEffects s) = segments s"
  by (simp add: updateSegmentEffects_def Let_def)

lemma alive_updateSegmentEffects [simp]:
  "alive (updateSegmentEffects s) = alive s"
  by (simp add: updateSegmentEffects_def Let_def)

lemma invulnerable_updateSegmentEffects [simp]:
  "invulnerable (updateSegmentEffects s) = invulnerable s"
  by (simp add: updateSegmentEffects_def Let_def)

lemma armored_behind_head:
  assumes inv: "Snake_inv s" and pos: "0 < getEffectLevel ''armor'' s"
  obtains i where "findArmored (length (segments s) - 1) (segments s) = Some i"
    "0 < i" "i < length (segments s)" "seg_type (segments s ! i) = ''armored''"
proof -
  from inv pos have "0 < countType ''armored'' (segments s)" by (simp add: Snake_inv_def)
  then obtain k where k: "k < length (segments s)" "seg_type (segments s ! k) = ''armored''"
    using countType_pos_index by blast
  from inv have "segments s \<noteq> []" and h: "seg_type (hd (segments s)) = ''head''"
    by (simp_all add: Snake_inv_def)
  then have "segments s ! 0 = hd (segments s)" by (simp add: hd_conv_nth)
  with h have "seg_type (segments s ! 0) = ''head''" by simp
  with k have "0 < k" by (cases k) auto
  moreover from k(1) have "k \<le> length (segments s) - 1" by simp
  ultimately have "\<exists>j. findArmored (length (segments s) - 1) (segments s) = Some j"
    using k(2) by (rule findArmored_finds)
  then obtain j where j: "findArmored (length (segments s) - 1) (segments s) = Some j" ..
  have "0 < k" by fact
  from findArmored_Some [OF j] k(1) have "0 < j" "j < length (segments s)"
    "seg_type (segments s ! j) = ''armored''" by auto
  with j that show thesis by blast
qed

lemma removeArmoredSegment_effect:
  assumes inv: "Snake_inv s" and pos: "0 < getEffectLevel ''armor'' s"
  shows "\<exists>i. 0 < i \<and> i < length (segments s) \<and> seg_type (segments s ! i) = ''armored'' \<and>
             removeArmoredSegment s =
               updateSegmentEffects (s\<lparr>segments := take i (segments s) @ drop (Suc i) (segments s)\<rparr>)"
proof -
  obtain i where i: "findArmored (length (segments s) - 1) (segments s) = Some i"
    "0 < i" "i < length (segments s)" "seg_type (segments s ! i) = ''armored''"
    using armored_behind_head [OF inv pos] by blast
  then show ?thesis by (auto simp add: removeArmoredSegment_def)
qed

lemma Snake_inv_new: "Snake_inv (Snake_new px py t)"
  by (simp add: Snake_inv_def Snake_new_def getEffectLevel_def countType_def)

lemma Snake_inv_removeArmoredSegment:
  assumes "Snake_inv s"
  shows "Snake_inv (removeArmoredSegment s)"
proof (cases "findArmored (length (segments s) - 1) (segments s)")
  case None
  then show ?thesis using assms by (simp add: removeArmoredSegment_def)
next
  case (Some i)
  from findArmored_Some [OF Some] have "0 < i" by simp
  then have "take i (segments s) \<noteq> []" "hd (take i (segments s)) = hd (segments s)"
    using assms by (auto simp add: Snake_inv_def)
  then show ?thesis
    using assms Some by (simp add: removeArmoredSegment_def Snake_inv_def)
qed

lemma Snake_inv_grow:
  assumes "Snake_inv s" "Snake_grow segmentType s = Some s'"
  shows "Snake_inv s'"
  using assms
  by (auto simp add: Snake_grow_def Snake_inv_def Let_def split: if_splits list.splits)

lemma Snake_inv_takeDamage: "Snake_inv s \<Longrightarrow> Snake_inv (snd (Snake_takeDamage r s))"
  using Snake_inv_removeArmoredSegment [of s]
  by (auto simp add: Snake_takeDamage_def Let_def setInvulnerable_def Snake_inv_def
        getEffectLevel_def)


text \<open>
  \<open>Snake_inv\<close> holds for a new and for a reset snake and is kept by every method of the
  model, so it holds for every snake the engine handles.
\<close>

lemma countType_map2_coords:
  "length prev = length body \<Longrightarrow>
   countType t (map2 (\<lambda>seg previous. seg\<lparr>seg_x := seg_x previous, seg_y := seg_y previous\<rparr>) body prev)
   = countType t body"
proof (induction body arbitrary: prev)
  case Nil
  then show ?case by (simp add: countType_def)
next
  case (Cons b body)
  then obtain p prev' where "prev = p # prev'" by (cases prev) auto
  with Cons show ?case by (simp add: countType_def)
qed

lemma Snake_inv_moveSegments:
  assumes "Snake_inv s"
  shows "Snake_inv (moveSegments dx dy s)"
proof (cases "segments s")
  case Nil
  then show ?thesis using assms by (simp add: Snake_inv_def)
next
  case (Cons h body)
  have len: "length (butlast (h # body)) = length body" by simp
  have "countType ''armored'' (segments (moveSegments dx dy s)) = countType ''armored'' (segments s)"
    using Cons countType_map2_coords [OF len, of "''armored''"]
    by (simp add: moveSegments_def countType_def del: butlast.simps)
  moreover have "getEffectLevel ''armor'' (moveSegments dx dy s) = getEffectLevel ''armor'' s"
    using Cons by (simp add: moveSegments_def getEffectLevel_def)
  moreover have "seg_type (hd (segments (moveSegments dx dy s))) = seg_type (hd (segments s))"
    "segments (moveSegments dx dy s) \<noteq> []"
    using Cons by (simp_all add: moveSegments_def)
  ultimately show ?thesis using assms by (simp add: Snake_inv_def)
qed

lemma Snake_inv_frame:
  assumes "Snake_inv s" "segments s' = segments s" "activePowerUps s' = activePowerUps s"
  shows "Snake_inv s'"
  using assms by (simp add: Snake_inv_def getEffectLevel_def)

lemma Snake_inv_update: "Snake_inv s \<Longrightarrow> Snake_inv (Snake_update deltaTime s)"
proof -
  assume inv: "Snake_inv s"
  have frame: "Snake_inv s' \<Longrightarrow> Snake_inv (s'\<lparr>gravitationalForce := f\<rparr>)" for s' f
    by (simp add: Snake_inv_def getEffectLevel_def)
  let ?s1 = "if boostCooldown s > 0 then s\<lparr>boostCooldown := boostCooldown s - deltaTime * 1000\<rparr> else s"
  let ?s2 = "if invulnerabilityTime ?s1 > 0
             then (let t = invulnerabilityTime ?s1 - deltaTime * 1000
                   in ?s1\<lparr>invulnerabilityTime := t,
                          invulnerable := (if t \<le> 0 then False else invulnerable ?s1)\<rparr>)
             else ?s1"
  have "Snake_inv (?s2\<lparr>direction := nextDirection ?s2\<rparr>)"
    using inv by (rule Snake_inv_frame) (simp_all add: Let_def)
  then show ?thesis
    by (simp add: Snake_update_def Let_def inv frame Snake_inv_moveSegments)
qed

lemma Snake_inv_setDirection: "Snake_inv s \<Longrightarrow> Snake_inv (Snake_setDirection d s)"
  by (erule Snake_inv_frame) (simp_all add: Snake_setDirection_def)

lemma Snake_inv_applyGravitationalForce:
  "Snake_inv s \<Longrightarrow> Snake_inv (applyGravitationalForce fx fy s)"
  by (erule Snake_inv_frame) (simp_all add: applyGravitationalForce_def)

lemma Snake_inv_reset: "Snake_inv (Snake_reset px py s)"
  by (simp add: Snake_inv_def Snake_reset_def getEffectLevel_def countType_def)

text \<open>
  Claim C5.  An invulnerable snake survives \<^verbatim>\<open>takeDamage\<close> unchanged.  Otherwise, with a
  positive armour level the snake survives exactly on the rolls \<open>r\<close> below
  \<open>min (armorLevel * 0.2) 0.8\<close>; as \<open>r\<close> is uniform on \<open>[0, 1)\<close>, that bound is the survival
  probability.  On such a roll, for a snake that satisfies \<open>Snake_inv\<close>, exactly one
  armoured segment behind the head is removed, the armour level drops by one, the snake is
  invulnerable for 1000 ms and stays alive, and the result is \<^verbatim>\<open>false\<close>.  On any other
  roll, or at armour level 0, the snake dies and the result is \<^verbatim>\<open>true\<close>; so a snake
  without armoured segments that is not invulnerable always dies.
\<close>

theorem takeDamage_cases:
  "(invulnerable s \<longrightarrow> Snake_takeDamage r s = (False, s)) \<and>
   (\<not> invulnerable s \<and> 0 < getEffectLevel ''armor'' s \<longrightarrow>
      (\<not> fst (Snake_takeDamage r s) \<longleftrightarrow> r < min (real (getEffectLevel ''armor'' s) * 0.2) 0.8)) \<and>
   (Snake_inv s \<and> \<not> invulnerable s \<and> 0 < getEffectLevel ''armor'' s \<and>
    r < min (real (getEffectLevel ''armor'' s) * 0.2) 0.8 \<longrightarrow>
      \<not> fst (Snake_takeDamage r s) \<and>
      (\<exists>i. 0 < i \<and> i < length (segments s) \<and> seg_type (segments s ! i) = ''armored'' \<and>
           segments (snd (Snake_takeDamage r s)) =
             take i (segments s) @ drop (Suc i) (segments s)) \<and>
      countType ''armored'' (segments (snd (Snake_takeDamage r s))) + 1 =
        countType ''armored'' (segments s) \<and>
      getEffectLevel ''armor'' (snd (Snake_takeDamage r s)) + 1 = getEffectLevel ''armor'' s \<and>
      invulnerable (snd (Snake_takeDamage r s)) \<and>
      invulnerabilityTime (snd (Snake_takeDamage r s)) = 1000 \<and>
      alive (snd (Snake_takeDamage r s)) = alive s) \<and>
   (\<not> invulnerable s \<and>
    (getEffectLevel ''armor'' s = 0 \<or> \<not> r < min (real (getEffectLevel ''armor'' s) * 0.2) 0.8) \<longrightarrow>
      Snake_takeDamage r s = (True, s\<lparr>alive := False\<rparr>)) \<and>
   (Snake_inv s \<and> \<not> invulnerable s \<and> countType ''armored'' (segments s) = 0 \<longrightarrow>
      Snake_takeDamage r s = (True, s\<lparr>alive := False\<rparr>))"
proof (intro conjI impI)
  assume "invulnerable s"
  then show "Snake_takeDamage r s = (False, s)" by (simp add: Snake_takeDamage_def)
next
  assume "\<not> invulnerable s \<and> 0 < getEffectLevel ''armor'' s"
  then show "\<not> fst (Snake_takeDamage r s) \<longleftrightarrow> r < min (real (getEffectLevel ''armor'' s) * 0.2) 0.8"
    by (simp add: Snake_takeDamage_def Let_def)
next
  assume a: "Snake_inv s \<and> \<not> invulnerable s \<and> 0 < getEffectLevel ''armor'' s \<and>
    r < min (real (getEffectLevel ''armor'' s) * 0.2) 0.8"
  then have td: "Snake_takeDamage r s = (False, setInvulnerable 1000 (removeArmoredSegment s))"
    by (simp add: Snake_takeDamage_def Let_def)
  from a obtain i where i: "0 < i" "i < length (segments s)" "seg_type (segments s ! i) = ''armored''"
    and rm: "removeArmoredSegment s =
               updateSegmentEffects (s\<lparr>segments := take i (segments s) @ drop (Suc i) (segments s)\<rparr>)"
    using removeArmoredSegment_effect [of s] by blast
  have segs: "segments (snd (Snake_takeDamage r s)) = take i (segments s) @ drop (Suc i) (segments s)"
    by (simp add: td rm setInvulnerable_def)
  have cnt: "countType ''armored'' (take i (segments s) @ drop (Suc i) (segments s)) + 1
             = countType ''armored'' (segments s)"
    using countType_remove_nth [OF i(2), of "''armored''"] i(3) by simp
  have lvl: "getEffectLevel ''armor'' (snd (Snake_takeDamage r s)) =
             countType ''armored'' (take i (segments s) @ drop (Suc i) (segments s))"
    by (simp add: td rm setInvulnerable_def getEffectLevel_def updateSegmentEffects_def Let_def)
  have old: "getEffectLevel ''armor'' s = countType ''armored'' (segments s)"
    using a by (simp add: Snake_inv_def)
  show "\<not> fst (Snake_takeDamage r s)" by (simp add: td)
  show "\<exists>i. 0 < i \<and> i < length (segments s) \<and> seg_type (segments s ! i) = ''armored'' \<and>
           segments (snd (Snake_takeDamage r s)) =
             take i (segments s) @ drop (Suc i) (segments s)"
    using i segs by blast
  show "countType ''armored'' (segments (snd (Snake_takeDamage r s))) + 1 =
        countType ''armored'' (segments s)"
    using cnt by (simp only: segs)
  show "getEffectLevel ''armor'' (snd (Snake_takeDamage r s)) + 1 = getEffectLevel ''armor'' s"
    using cnt by (simp only: lvl old)
  show "invulnerable (snd (Snake_takeDamage r s))"
    by (simp add: td setInvulnerable_def)
  show "invulnerabilityTime (snd (Snake_takeDamage r s)) = 1000"
    by (simp add: td setInvulnerable_def)
  show "alive (snd (Snake_takeDamage r s)) = alive s"
    by (simp add: td rm setInvulnerable_def)
next
  assume "\<not> invulnerable s \<and>
    (getEffectLevel ''armor'' s = 0 \<or> \<not> r < min (real (getEffectLevel ''armor'' s) * 0.2) 0.8)"
  then show "Snake_takeDamage r s = (True, s\<lparr>alive := False\<rparr>)"
    by (auto simp add: Snake_takeDamage_def Let_def)
next
  assume "Snake_inv s \<and> \<not> invulnerable s \<and> countType ''armored'' (segments s) = 0"
  then show "Snake_takeDamage r s = (True, s\<lparr>alive := False\<rparr>)"
    by (simp add: Snake_takeDamage_def Let_def Snake_inv_def)
qed

theorem takeDamage_cases_witness:
  "Snake_inv (the (Snake_grow ''armored'' (Snake_new 5 5 ''player''))) \<and>
   getEffectLevel ''armor'' (the (Snake_grow ''armored'' (Snake_new 5 5 ''player''))) = 1 \<and>
   \<not> fst (Snake_takeDamage (1 / 10) (the (Snake_grow ''armored'' (Snake_new 5 5 ''player'')))) \<and>
   getEffectLevel ''armor''
     (snd (Snake_takeDamage (1 / 10) (the (Snake_grow ''armored'' (Snake_new 5 5 ''player''))))) + 1 = 1 \<and>
   invulnerable
     (snd (Snake_takeDamage (1 / 10) (the (Snake_grow ''armored'' (Snake_new 5 5 ''player''))))) \<and>
   Snake_takeDamage (1 / 2) (the (Snake_grow ''armored'' (Snake_new 5 5 ''player''))) =
     (True, (the (Snake_grow ''armored'' (Snake_new 5 5 ''player'')))\<lparr>alive := False\<rparr>) \<and>
   Snake_takeDamage (1 / 10) (Snake_new 5 5 ''player'') =
     (True, (Snake_new 5 5 ''player'')\<lparr>alive := False\<rparr>) \<and>
   Snake_takeDamage (1 / 10) (setInvulnerable 1000 (Snake_new 5 5 ''player'')) =
     (False, setInvulnerable 1000 (Snake_new 5 5 ''player''))"
proof -
  let ?new = "Snake_new 5 5 ''player''"
  let ?grown = "the (Snake_grow ''armored'' ?new)"
  have "Snake_grow ''armored'' ?new \<noteq> None"
    by (simp add: Snake_grow_def Snake_new_def Let_def)
  then have g: "Snake_grow ''armored'' ?new = Some ?grown" by simp
  have inv: "Snake_inv ?grown" using Snake_inv_grow [OF Snake_inv_new g] .
  have lvl: "getEffectLevel ''armor'' ?grown = 1"
    by (simp add: Snake_grow_def Snake_new_def Let_def countType_def)
  have ninv: "\<not> invulnerable ?grown"
    by (simp add: Snake_grow_def Snake_new_def Let_def)
  have lvl0: "getEffectLevel ''armor'' ?new = 0" and ninv0: "\<not> invulnerable ?new"
    by (simp_all add: Snake_new_def getEffectLevel_def)
  have i: "invulnerable (setInvulnerable 1000 ?new)" by (simp add: setInvulnerable_def)
  note a = takeDamage_cases [of ?grown "1 / 10"]
  note b = takeDamage_cases [of ?grown "1 / 2"]
  note c = takeDamage_cases [of ?new "1 / 10"]
  note d = takeDamage_cases [of "setInvulnerable 1000 ?new" "1 / 10"]
  show ?thesis using a b c d inv lvl ninv lvl0 ninv0 i by simp
qed

subsection \<open>GravityWell: forces\<close>

lemma js_ops_Some [simp]:
  "js_add (Some a) (Some b) = Some (a + b)"
  "js_sub (Some a) (Some b) = Some (a - b)"
  "js_mul (Some a) (Some b) = Some (a * b)"
  "js_neg (Some a) = Some (- a)"
  "js_div (Some a) (Some b) = (if b = 0 then None else Some (a / b))"
  "js_eq (Some a) (Some b) \<longleftrightarrow> a = b"
  "js_greater (Some a) (Some b) \<longleftrightarrow> a > b"
  "Math_min (Some a) (Some b) = Some (min a b)"
  "Math_max (Some a) (Some b) = Some (max a b)"
  "Math_sqrt (Some a) = (if a < 0 then None else Some (sqrt a))"
  "Math_round (Some a) = Some (of_int \<lfloor>a + 1 / 2\<rfloor>)"
  by (simp_all add: js_add_def js_sub_def js_mul_def js_neg_def js_div_def js_eq_def
        js_greater_def Math_min_def Math_max_def Math_sqrt_def Math_round_def)

lemma js_ops_None [simp]:
  "js_add None b = None" "js_add a None = None"
  "js_sub None b = None" "js_sub a None = None"
  "js_mul None b = None" "js_mul a None = None"
  "js_neg None = None"
  "js_div None b = None" "js_div a None = None"
  "\<not> js_eq None b" "\<not> js_eq a None"
  "\<not> js_greater None b" "\<not> js_greater a None"
  "Math_min None b = None" "Math_min a None = None"
  "Math_max None b = None" "Math_max a None = None"
  "Math_sqrt None = None" "Math_round None = None"
  by (simp_all add: js_add_def js_sub_def js_mul_def js_neg_def js_div_def js_eq_def
        js_greater_def Math_min_def Math_max_def Math_sqrt_def Math_round_def split: option.splits)

lemma calculateAttractiveForce_finite:
  "calculateAttractiveForce w (Some dx) (Some dy) (Some d) isY =
     (if d = 0 then Some 0 else Some (attractLaw (strength w) (if isY then dy else dx) d))"
proof -
  have "d * d + 1 \<noteq> 0" by (smt (verit) zero_le_square)
  then show ?thesis
    by (simp add: calculateAttractiveForce_def Let_def attractLaw_def maxForce_def power2_eq_square)
qed

lemma clamp_bounded: "\<bar>max (- m) (min m (v::real))\<bar> \<le> m" if "0 \<le> m"
  using that by (auto simp add: max_def min_def abs_le_iff)

lemma attractLaw_bounded: "\<bar>attractLaw str c d\<bar> \<le> maxForce"
  unfolding attractLaw_def by (rule clamp_bounded) (simp add: maxForce_def)

lemma attractLaw_zero [simp]: "attractLaw str 0 d = 0"
  by (simp add: attractLaw_def maxForce_def)

lemma applyGravity_finite:
  assumes "active w" "alive s" "getHead s = Some head" "seg_x head = Some hx" "seg_y head = Some hy"
  shows "applyGravity w s =
     (if headDistance w hx hy > radius w / 20 then Some s
      else (let force = switchForce w (Some (fst (headOffset w hx hy)))
                          (Some (snd (headOffset w hx hy))) (Some (headDistance w hx hy))
            in Some (applyGravitationalForce (fst force) (snd force) s)))"
proof -
  have "\<not> (fst (headOffset w hx hy) * fst (headOffset w hx hy) +
           snd (headOffset w hx hy) * snd (headOffset w hx hy) < 0)"
    by (smt (verit) zero_le_square)
  then show ?thesis
    using assms by (simp add: applyGravity_def Let_def headDistance_def headOffset_def)
qed

lemma headDistance_zero_iff:
  "headDistance w hx hy = 0 \<longleftrightarrow> headOffset w hx hy = (0, 0)"
proof -
  obtain a b where ab: "headOffset w hx hy = (a, b)" by (cases "headOffset w hx hy")
  have "sqrt (a * a + b * b) = 0 \<longleftrightarrow> a = 0 \<and> b = 0"
    by (simp add: sum_squares_eq_zero_iff)
  then show ?thesis by (simp add: headDistance_def ab)
qed

lemma headDistance_nonneg: "0 \<le> headDistance w hx hy"
  by (simp add: headDistance_def)

lemma clamp_sign:
  fixes m v :: real
  assumes "0 < m"
  shows "v < 0 \<Longrightarrow> max (- m) (min m v) < 0" and "0 < v \<Longrightarrow> 0 < max (- m) (min m v)"
  using assms by (auto simp add: max_def min_def)

lemma attractLaw_same_sign:
  assumes "0 < str"
  shows "0 \<le> attractLaw str c d * c" and "c \<noteq> 0 \<Longrightarrow> 0 < attractLaw str c d * c"
proof -
  have den: "0 < d\<^sup>2 + 1" by (smt (verit) zero_le_power2)
  have pos: "0 < attractLaw str c d" if "0 < c"
  proof -
    have "0 < str * c / (d\<^sup>2 + 1)" using assms that den by simp
    then show ?thesis unfolding attractLaw_def by (intro clamp_sign(2)) (simp_all add: maxForce_def)
  qed
  have neg: "attractLaw str c d < 0" if "c < 0"
  proof -
    have "str * c < 0" using assms that by (simp add: mult_pos_neg)
    then have "str * c / (d\<^sup>2 + 1) < 0" using den by (simp add: divide_neg_pos)
    then show ?thesis unfolding attractLaw_def by (intro clamp_sign(1)) (simp_all add: maxForce_def)
  qed
  show "c \<noteq> 0 \<Longrightarrow> 0 < attractLaw str c d * c"
    using pos neg by (cases "0 < c") (auto simp add: mult_neg_neg not_less le_less)
  then show "0 \<le> attractLaw str c d * c"
    by (cases "c = 0") (auto simp add: less_imp_le)
qed

lemma attract_points_to_centre:
  assumes "0 < str" and "(a, b) \<noteq> (0, 0)"
  shows "0 < attractLaw str a d * a + attractLaw str b d * b"
proof (cases "a = 0")
  case True
  with assms(2) have "b \<noteq> 0" by simp
  then show ?thesis using True attractLaw_same_sign(2) [OF assms(1), of b d] by simp
next
  case False
  then have "0 < attractLaw str a d * a" using attractLaw_same_sign(2) [OF assms(1)] by simp
  moreover have "0 \<le> attractLaw str b d * b" using attractLaw_same_sign(1) [OF assms(1)] .
  ultimately show ?thesis by linarith
qed

lemma switchForce_attract:
  assumes "gw_type w = ''attract''" "d \<noteq> 0"
  shows "switchForce w (Some dx) (Some dy) (Some d) =
           (Some (attractLaw (strength w) dx d), Some (attractLaw (strength w) dy d))"
  using assms by (simp add: switchForce_def calculateAttractiveForce_finite)

lemma switchForce_repel:
  assumes "gw_type w = ''repel''" "d \<noteq> 0"
  shows "switchForce w (Some dx) (Some dy) (Some d) =
           (Some (- attractLaw (strength w) dx d), Some (- attractLaw (strength w) dy d))"
  using assms by (simp add: switchForce_def calculateAttractiveForce_finite)

text \<open>
  Claim C3, as the code has it.  For a living snake in range of an active well, at a
  distance \<open>d > 0\<close> between the well and the centre of the head's cell: an attract well
  applies, on each axis, \<open>clamp (strength * component / (d\<^sup>2 + 1))\<close> to \<open>\<plusminus> 0.5\<close>, a repel
  well applies the negation, and every component is within \<open>\<plusminus> 0.5\<close> however small \<open>d\<close>
  is.  When the strength is positive the attract force has a positive scalar product with
  the offset from the head to the well (it points to the centre), so the repel force, its
  negation, points away.
\<close>

theorem attract_repel_law:
  "active w \<and> alive s \<and> getHead s = Some head \<and> seg_x head = Some hx \<and> seg_y head = Some hy \<and>
   0 < headDistance w hx hy \<and> headDistance w hx hy \<le> radius w / 20 \<longrightarrow>
     (gw_type w = ''attract'' \<longrightarrow>
        applyGravity w s = Some (applyGravitationalForce
          (Some (attractLaw (strength w) (fst (headOffset w hx hy)) (headDistance w hx hy)))
          (Some (attractLaw (strength w) (snd (headOffset w hx hy)) (headDistance w hx hy))) s)) \<and>
     (gw_type w = ''repel'' \<longrightarrow>
        applyGravity w s = Some (applyGravitationalForce
          (Some (- attractLaw (strength w) (fst (headOffset w hx hy)) (headDistance w hx hy)))
          (Some (- attractLaw (strength w) (snd (headOffset w hx hy)) (headDistance w hx hy))) s)) \<and>
     \<bar>attractLaw (strength w) (fst (headOffset w hx hy)) (headDistance w hx hy)\<bar> \<le> maxForce \<and>
     \<bar>attractLaw (strength w) (snd (headOffset w hx hy)) (headDistance w hx hy)\<bar> \<le> maxForce \<and>
     (0 < strength w \<longrightarrow>
        0 < attractLaw (strength w) (fst (headOffset w hx hy)) (headDistance w hx hy)
              * fst (headOffset w hx hy)
          + attractLaw (strength w) (snd (headOffset w hx hy)) (headDistance w hx hy)
              * snd (headOffset w hx hy))"
proof (intro impI)
  assume a: "active w \<and> alive s \<and> getHead s = Some head \<and> seg_x head = Some hx \<and>
    seg_y head = Some hy \<and> 0 < headDistance w hx hy \<and> headDistance w hx hy \<le> radius w / 20"
  then have ag: "applyGravity w s =
      (let force = switchForce w (Some (fst (headOffset w hx hy)))
                          (Some (snd (headOffset w hx hy))) (Some (headDistance w hx hy))
       in Some (applyGravitationalForce (fst force) (snd force) s))"
    using applyGravity_finite [of w s head hx hy] by simp
  from a have nz: "headDistance w hx hy \<noteq> 0" by simp
  then have off: "(fst (headOffset w hx hy), snd (headOffset w hx hy)) \<noteq> (0, 0)"
    using headDistance_zero_iff [of w hx hy] by (simp add: prod_eq_iff)
  show "(gw_type w = ''attract'' \<longrightarrow>
        applyGravity w s = Some (applyGravitationalForce
          (Some (attractLaw (strength w) (fst (headOffset w hx hy)) (headDistance w hx hy)))
          (Some (attractLaw (strength w) (snd (headOffset w hx hy)) (headDistance w hx hy))) s)) \<and>
     (gw_type w = ''repel'' \<longrightarrow>
        applyGravity w s = Some (applyGravitationalForce
          (Some (- attractLaw (strength w) (fst (headOffset w hx hy)) (headDistance w hx hy)))
          (Some (- attractLaw (strength w) (snd (headOffset w hx hy)) (headDistance w hx hy))) s)) \<and>
     \<bar>attractLaw (strength w) (fst (headOffset w hx hy)) (headDistance w hx hy)\<bar> \<le> maxForce \<and>
     \<bar>attractLaw (strength w) (snd (headOffset w hx hy)) (headDistance w hx hy)\<bar> \<le> maxForce \<and>
     (0 < strength w \<longrightarrow>
        0 < attractLaw (strength w) (fst (headOffset w hx hy)) (headDistance w hx hy)
              * fst (headOffset w hx hy)
          + attractLaw (strength w) (snd (headOffset w hx hy)) (headDistance w hx hy)
              * snd (headOffset w hx hy))"
  proof (intro conjI impI)
    assume "gw_type w = ''attract''"
    then show "applyGravity w s = Some (applyGravitationalForce
          (Some (attractLaw (strength w) (fst (headOffset w hx hy)) (headDistance w hx hy)))
          (Some (attractLaw (strength w) (snd (headOffset w hx hy)) (headDistance w hx hy))) s)"
      by (simp add: ag switchForce_attract [OF _ nz])
  next
    assume "gw_type w = ''repel''"
    then show "applyGravity w s = Some (applyGravitationalForce
          (Some (- attractLaw (strength w) (fst (headOffset w hx hy)) (headDistance w hx hy)))
          (Some (- attractLaw (strength w) (snd (headOffset w hx hy)) (headDistance w hx hy))) s)"
      by (simp add: ag switchForce_repel [OF _ nz])
  next
    show "\<bar>attractLaw (strength w) (fst (headOffset w hx hy)) (headDistance w hx hy)\<bar> \<le> maxForce"
      by (rule attractLaw_bounded)
    show "\<bar>attractLaw (strength w) (snd (headOffset w hx hy)) (headDistance w hx hy)\<bar> \<le> maxForce"
      by (rule attractLaw_bounded)
  next
    assume "0 < strength w"
    then show "0 < attractLaw (strength w) (fst (headOffset w hx hy)) (headDistance w hx hy)
              * fst (headOffset w hx hy)
          + attractLaw (strength w) (snd (headOffset w hx hy)) (headDistance w hx hy)
              * snd (headOffset w hx hy)"
      using off by (rule attract_points_to_centre)
  qed
qed

lemma example_head:
  "getHead (Snake_new px py t) = Some \<lparr>seg_x = Some px, seg_y = Some py, seg_type = ''head''\<rparr>"
  "alive (Snake_new px py t)"
  by (simp_all add: getHead_def Snake_new_def)

lemma example_well [simp]:
  "active (GravityWell_new px py str rad t)" "gw_x (GravityWell_new px py str rad t) = px"
  "gw_y (GravityWell_new px py str rad t) = py" "strength (GravityWell_new px py str rad t) = str"
  "radius (GravityWell_new px py str rad t) = rad" "gw_type (GravityWell_new px py str rad t) = t"
  "phase (GravityWell_new px py str rad t) = 0"
  by (simp_all add: GravityWell_new_def)

theorem attract_repel_law_witness:
  "applyGravity (GravityWell_new (3 / 2) (1 / 2) 1 100 ''attract'') (Snake_new 0 0 ''player'') =
     Some (applyGravitationalForce (Some (1 / 2)) (Some 0) (Snake_new 0 0 ''player'')) \<and>
   applyGravity (GravityWell_new (3 / 2) (1 / 2) 1 100 ''repel'') (Snake_new 0 0 ''player'') =
     Some (applyGravitationalForce (Some (- (1 / 2))) (Some 0) (Snake_new 0 0 ''player'')) \<and>
   0 < attractLaw 1 1 1 * 1 + attractLaw 1 0 1 * 0"
proof -
  let ?a = "GravityWell_new (3 / 2) (1 / 2) 1 100 ''attract''"
  let ?r = "GravityWell_new (3 / 2) (1 / 2) 1 100 ''repel''"
  let ?p = "Snake_new 0 0 ''player''"
  let ?h = "\<lparr>seg_x = Some 0, seg_y = Some 0, seg_type = ''head''\<rparr>"
  have oa: "headOffset ?a 0 0 = (1, 0)" and da: "headDistance ?a 0 0 = 1"
    by (simp_all add: headDistance_def headOffset_def)
  have or: "headOffset ?r 0 0 = (1, 0)" and dr: "headDistance ?r 0 0 = 1"
    by (simp_all add: headDistance_def headOffset_def)
  have law: "attractLaw 1 1 1 = 1 / 2" by (simp add: attractLaw_def maxForce_def)
  have 1: "applyGravity ?a ?p = Some (applyGravitationalForce (Some (1 / 2)) (Some 0) ?p)"
    using attract_repel_law [of ?a ?p ?h 0 0] example_head [of 0 0 "''player''"]
    by (simp add: oa da law)
  have 2: "applyGravity ?r ?p = Some (applyGravitationalForce (Some (- (1 / 2))) (Some 0) ?p)"
    using attract_repel_law [of ?r ?p ?h 0 0] example_head [of 0 0 "''player''"]
    by (simp add: or dr law)
  have 3: "0 < attractLaw 1 1 1 * 1 + attractLaw 1 0 1 * 0"
    using attract_repel_law [of ?a ?p ?h 0 0] example_head [of 0 0 "''player''"]
    by (simp add: oa da)
  show ?thesis using 1 2 3 by simp
qed

text \<open>
  The direction part of C3 needs a positive strength.  The well lies in the positive \<open>x\<close>
  direction of the head (offset \<open>(1, 0)\<close>, distance 1); with strength \<open>- 1\<close> the attract
  well applies \<open>(- 0.5, 0)\<close>, which points away from it.
\<close>

theorem negative_strength_attract_counterexample:
  "applyGravity (GravityWell_new (3 / 2) (1 / 2) (- 1) 100 ''attract'') (Snake_new 0 0 ''player'') =
     Some (applyGravitationalForce (Some (- (1 / 2))) (Some 0) (Snake_new 0 0 ''player''))"
  by (simp add: applyGravity_def example_head Let_def switchForce_def
        calculateAttractiveForce_def)

text \<open>
  Claim C9, as the code has it.  For a living snake and an active well, the range test
  comes before the \<^verbatim>\<open>switch\<close> on the type: when the distance exceeds \<open>radius / 20\<close> the
  snake is returned unchanged, whatever the type; otherwise the force of the \<^verbatim>\<open>switch\<close>
  is applied.  A radius of 0 is no exception: such a well leaves every snake at a
  positive distance unchanged.
\<close>

theorem out_of_range_no_force:
  "active w \<and> alive s \<and> getHead s = Some head \<and> seg_x head = Some hx \<and> seg_y head = Some hy \<longrightarrow>
     (radius w / 20 < headDistance w hx hy \<longrightarrow> applyGravity w s = Some s) \<and>
     (radius w = 0 \<and> 0 < headDistance w hx hy \<longrightarrow> applyGravity w s = Some s) \<and>
     (headDistance w hx hy \<le> radius w / 20 \<longrightarrow>
        applyGravity w s =
          Some (applyGravitationalForce
            (fst (switchForce w (Some (fst (headOffset w hx hy))) (Some (snd (headOffset w hx hy)))
                    (Some (headDistance w hx hy))))
            (snd (switchForce w (Some (fst (headOffset w hx hy))) (Some (snd (headOffset w hx hy)))
                    (Some (headDistance w hx hy)))) s))"
proof (intro impI)
  assume a: "active w \<and> alive s \<and> getHead s = Some head \<and> seg_x head = Some hx \<and> seg_y head = Some hy"
  then have ag: "applyGravity w s =
     (if headDistance w hx hy > radius w / 20 then Some s
      else (let force = switchForce w (Some (fst (headOffset w hx hy)))
                          (Some (snd (headOffset w hx hy))) (Some (headDistance w hx hy))
            in Some (applyGravitationalForce (fst force) (snd force) s)))"
    using applyGravity_finite [of w s head hx hy] by simp
  show "(radius w / 20 < headDistance w hx hy \<longrightarrow> applyGravity w s = Some s) \<and>
     (radius w = 0 \<and> 0 < headDistance w hx hy \<longrightarrow> applyGravity w s = Some s) \<and>
     (headDistance w hx hy \<le> radius w / 20 \<longrightarrow>
        applyGravity w s =
          Some (applyGravitationalForce
            (fst (switchForce w (Some (fst (headOffset w hx hy))) (Some (snd (headOffset w hx hy)))
                    (Some (headDistance w hx hy))))
            (snd (switchForce w (Some (fst (headOffset w hx hy))) (Some (snd (headOffset w hx hy)))
                    (Some (headDistance w hx hy)))) s))"
    by (simp add: ag Let_def)
qed

theorem out_of_range_no_force_witness:
  "applyGravity (GravityWell_new (11 / 2) (1 / 2) 1 80 ''attract'') (Snake_new 0 0 ''player'') =
     Some (Snake_new 0 0 ''player'') \<and>
   applyGravity (GravityWell_new (3 / 2) (1 / 2) 1 0 ''vortex'') (Snake_new 0 0 ''player'') =
     Some (Snake_new 0 0 ''player'') \<and>
   applyGravity (GravityWell_new (3 / 2) (1 / 2) 1 80 ''attract'') (Snake_new 0 0 ''player'') =
     Some (applyGravitationalForce (Some (1 / 2)) (Some 0) (Snake_new 0 0 ''player''))"
proof -
  let ?far = "GravityWell_new (11 / 2) (1 / 2) 1 80 ''attract''"
  let ?zero = "GravityWell_new (3 / 2) (1 / 2) 1 0 ''vortex''"
  let ?near = "GravityWell_new (3 / 2) (1 / 2) 1 80 ''attract''"
  let ?p = "Snake_new 0 0 ''player''"
  let ?h = "\<lparr>seg_x = Some 0, seg_y = Some 0, seg_type = ''head''\<rparr>"
  have d1: "headDistance ?far 0 0 = 5" by (simp add: headDistance_def headOffset_def)
  have d2: "headDistance ?zero 0 0 = 1" by (simp add: headDistance_def headOffset_def)
  have d3: "headDistance ?near 0 0 = 1" and o3: "headOffset ?near 0 0 = (1, 0)"
    by (simp_all add: headDistance_def headOffset_def)
  have f3: "switchForce ?near (Some 1) (Some 0) (Some 1) = (Some (1 / 2), Some 0)"
    by (simp add: switchForce_attract attractLaw_def maxForce_def)
  have 1: "applyGravity ?far ?p = Some ?p"
    using out_of_range_no_force [of ?far ?p ?h 0 0] example_head [of 0 0 "''player''"]
    by (simp add: d1)
  have 2: "applyGravity ?zero ?p = Some ?p"
    using out_of_range_no_force [of ?zero ?p ?h 0 0] example_head [of 0 0 "''player''"]
    by (simp add: d2)
  have 3: "applyGravity ?near ?p = Some (applyGravitationalForce (Some (1 / 2)) (Some 0) ?p)"
    using out_of_range_no_force [of ?near ?p ?h 0 0] example_head [of 0 0 "''player''"]
    by (simp add: d3 o3 f3)
  show ?thesis using 1 2 3 by simp
qed

text \<open>
  A well of radius 0 is not unbounded.  At distance 1 the attract law gives \<open>(0.5, 0)\<close>,
  but \<open>1 > 0 / 20\<close> and the snake receives nothing.
\<close>

theorem zero_radius_counterexample:
  "applyGravity (GravityWell_new (3 / 2) (1 / 2) 1 0 ''attract'') (Snake_new 0 0 ''player'') =
     Some (Snake_new 0 0 ''player'') \<and>
   switchForce (GravityWell_new (3 / 2) (1 / 2) 1 0 ''attract'') (Some 1) (Some 0) (Some 1) =
     (Some (1 / 2), Some 0)"
  by (simp add: applyGravity_def example_head Let_def switchForce_def
        calculateAttractiveForce_def)

text \<open>
  \<^verbatim>\<open>isInRange\<close> compares the distance with the radius itself, not with \<open>radius / 20\<close>: a
  point 10 cells from a well of radius 50 is in range for it, and out of range for
  \<^verbatim>\<open>applyGravity\<close>.
\<close>

lemma isInRange_raw_radius:
  "isInRange (GravityWell_new (21 / 2) (1 / 2) 1 50 ''attract'') (1 / 2) (1 / 2) \<and>
   applyGravity (GravityWell_new (21 / 2) (1 / 2) 1 50 ''attract'') (Snake_new 0 0 ''player'') =
     Some (Snake_new 0 0 ''player'')"
proof -
  have "sqrt (10 * 10) = (10::real)" by (simp only: real_sqrt_abs2 abs_numeral)
  then have "sqrt 100 = (10::real)" by simp
  then show ?thesis
    by (simp add: isInRange_def Let_def applyGravity_def example_head)
qed

text \<open>
  Towards claim C2: what holds for attract, repel and pulse wells.  With the head's centre
  on the well (and a radius that is not negative) the applied force is \<open>(0, 0)\<close>, and every
  force these three types compute is finite with both components within \<open>\<plusminus> 0.5\<close>.
\<close>

lemma switchForce_centre:
  assumes "gw_type w = ''attract'' \<or> gw_type w = ''repel'' \<or> gw_type w = ''pulse''"
  shows "switchForce w (Some 0) (Some 0) (Some 0) = (Some 0, Some 0)"
  using assms by (auto simp add: switchForce_def calculateAttractiveForce_finite Let_def)

lemma centre_force_zero:
  assumes "active w" "alive s" "getHead s = Some head" "seg_x head = Some hx" "seg_y head = Some hy"
    and "headDistance w hx hy = 0" and "0 \<le> radius w"
    and "gw_type w = ''attract'' \<or> gw_type w = ''repel'' \<or> gw_type w = ''pulse''"
  shows "applyGravity w s = Some (applyGravitationalForce (Some 0) (Some 0) s)"
proof -
  from assms(6) have "headOffset w hx hy = (0, 0)" by (simp add: headDistance_zero_iff)
  then show ?thesis
    using assms by (simp add: applyGravity_finite [OF assms(1-5)] switchForce_centre)
qed

lemma pulse_factor_bounds:
  fixes x :: real
  shows "0 \<le> sin x * 0.5 + 0.5" and "sin x * 0.5 + 0.5 \<le> 1"
proof -
  have "- 1 \<le> sin x" "sin x \<le> 1" by simp_all
  then show "0 \<le> sin x * 0.5 + 0.5" and "sin x * 0.5 + 0.5 \<le> 1" by linarith+
qed

lemma scaled_bounded:
  fixes a k m :: real
  assumes "\<bar>a\<bar> \<le> m" "0 \<le> k" "k \<le> 1"
  shows "\<bar>a * k\<bar> \<le> m"
proof -
  have "\<bar>a * k\<bar> = \<bar>a\<bar> * k" using assms(2) by (simp add: abs_mult)
  also have "\<dots> \<le> \<bar>a\<bar> * 1" using assms(3) by (intro mult_left_mono) simp_all
  finally show ?thesis using assms(1) by simp
qed

lemma safe_kinds_bounded:
  assumes "gw_type w = ''attract'' \<or> gw_type w = ''repel'' \<or> gw_type w = ''pulse''"
  shows "\<exists>fx fy. switchForce w (Some dx) (Some dy) (Some d) = (Some fx, Some fy) \<and>
                 \<bar>fx\<bar> \<le> maxForce \<and> \<bar>fy\<bar> \<le> maxForce"
proof -
  have z: "\<bar>0::real\<bar> \<le> maxForce" by (simp add: maxForce_def)
  consider (a) "gw_type w = ''attract''" | (r) "gw_type w = ''repel''" | (p) "gw_type w = ''pulse''"
    using assms by blast
  then show ?thesis
  proof cases
    case a
    then show ?thesis
      using attractLaw_bounded z
      by (simp add: switchForce_def calculateAttractiveForce_finite)
  next
    case r
    then show ?thesis
      using attractLaw_bounded z
      by (simp add: switchForce_def calculateAttractiveForce_finite)
  next
    case p
    then show ?thesis
      using scaled_bounded [OF attractLaw_bounded pulse_factor_bounds] z
      by (simp add: switchForce_def calculateAttractiveForce_finite Let_def)
  qed
qed

text \<open>
  Claim C2 fails on the vortex branch.  \<^verbatim>\<open>calculateAttractiveForce\<close> returns 0 at distance
  0, but the branch then computes \<^verbatim>\<open>dy / distance * tangentForce\<close> itself: with the head's
  centre on the well this is \<^verbatim>\<open>0 / 0\<close>, and both components applied to the snake are
  \<^verbatim>\<open>NaN\<close>.
\<close>

theorem vortex_at_centre_is_NaN:
  "applyGravity (GravityWell_new (11 / 2) (11 / 2) 1 50 ''vortex'') (Snake_new 5 5 ''enemy'') =
     Some (applyGravitationalForce None None (Snake_new 5 5 ''enemy''))"
  by (simp add: applyGravity_def example_head Let_def switchForce_def
        calculateAttractiveForce_def calculateTangentialForce_def)

text \<open>
  Read off the snake: after the call its accumulated force is \<open>(NaN, NaN)\<close>.
\<close>

theorem vortex_at_centre_is_NaN_witness:
  "gravitationalForce
     (the (applyGravity (GravityWell_new (11 / 2) (11 / 2) 1 50 ''vortex'') (Snake_new 5 5 ''enemy'')))
   = (None, None)"
  using vortex_at_centre_is_NaN by (simp add: applyGravitationalForce_def)

text \<open>
  The same branch adds the tangential term after the clamp: a vortex of strength 1.2 at
  offset \<open>(0.6, 0.8)\<close> applies \<open>0.588\<close> on the \<open>y\<close> axis.
\<close>

lemma vortex_exceeds_clamp:
  "applyGravity (GravityWell_new 25 20 (6 / 5) 100 ''vortex'') (Snake_new (239 / 10) (187 / 10) ''enemy'') =
     Some (applyGravitationalForce (Some (27 / 125)) (Some (147 / 250))
             (Snake_new (239 / 10) (187 / 10) ''enemy''))"
  by (simp add: applyGravity_def example_head Let_def switchForce_def
        calculateAttractiveForce_def calculateTangentialForce_def)

subsection \<open>ConstellationManager: collecting stars and choosing the next pattern\<close>

lemma selectNextPattern_fields [simp]:
  "completedPatterns (snd (selectNextPattern r m)) = completedPatterns m"
  "morphingActive (snd (selectNextPattern r m)) = morphingActive m"
  "morphTimer (snd (selectNextPattern r m)) = morphTimer m"
  "pendingTimeouts (snd (selectNextPattern r m)) = pendingTimeouts m"
  "collectedStars (snd (selectNextPattern r m)) = collectedStars m"
  "currentPattern (snd (selectNextPattern r m)) = currentPattern m"
  "targetPattern (snd (selectNextPattern r m)) = targetPattern m"
  by (simp_all add: selectNextPattern_def Let_def)

lemma startMorphing_fields [simp]:
  "completedPatterns (startMorphing r m) = completedPatterns m"
  "morphingActive (startMorphing r m)"
  "morphTimer (startMorphing r m) = 3000"
  "collectedStars (startMorphing r m) = collectedStars m"
  "currentPattern (startMorphing r m) = currentPattern m"
  "targetPattern (startMorphing r m) = targetPattern m"
  "length (pendingTimeouts (startMorphing r m)) = Suc (length (pendingTimeouts m))"
  by (simp_all add: startMorphing_def Let_def)

lemma patterns_startMorphing [simp]: "patterns (startMorphing r m) = patterns m"
  by (simp add: startMorphing_def selectNextPattern_def Let_def)

lemma patterns_collectStar:
  "patterns (snd (the (collectStar starType r now m))) = patterns m"
  by (simp add: collectStar_def completeConstellation_def Let_def split: option.splits)




lemma collectStar_progress:
  assumes "currentPattern m = Some cp" "starType \<in> set (stars cp)" "starType |\<notin>| collectedStars m"
    and "Suc (fcard (collectedStars m)) \<noteq> length (stars cp)"
  shows "collectStar starType r now m =
           Some (False, m\<lparr>collectedStars := finsert starType (collectedStars m)\<rparr>)"
  using assms by (simp add: collectStar_def Let_def fcard_finsert_disjoint)

lemma collectStar_completes:
  assumes "currentPattern m = Some cp" "starType \<in> set (stars cp)" "starType |\<notin>| collectedStars m"
    and "Suc (fcard (collectedStars m)) = length (stars cp)"
  shows "collectStar starType r now m =
           Some (True, startMorphing r
             (m\<lparr>collectedStars := finsert starType (collectedStars m),
                completedPatterns := completedPatterns m @
                  [\<lparr>done_pattern = targetPattern m, done_name = pat_name cp,
                    completedAt = now, done_bonus = bonus cp\<rparr>]\<rparr>))"
  using assms by (simp add: collectStar_def Let_def fcard_finsert_disjoint completeConstellation_def)


lemma new_manager:
  "ConstellationManager_new =
     \<lparr>patterns = initialPatterns, currentPattern = map_of initialPatterns ''triangle'',
      collectedStars = {||}, targetPattern = ''triangle'', morphingActive = False, morphTimer = 0,
      completedPatterns = [], recentPatterns = [], pendingTimeouts = []\<rparr>"
  by (simp add: ConstellationManager_new_def setPattern_def initialPatterns_def)

lemma triangle_stars:
  "\<exists>cp. map_of initialPatterns ''triangle'' = Some cp \<and> stars cp = [''alpha'', ''beta'', ''gamma'']"
  by (simp add: initialPatterns_def)

lemma randomElement_in_range:
  assumes "0 \<le> r" "r < 1" "xs \<noteq> []"
  shows "\<exists>x \<in> set xs. randomElement r xs = Some x"
proof -
  let ?n = "length xs"
  have n: "0 < real ?n" using assms(3) by simp
  have lo: "0 \<le> r * real ?n" using assms(1) by simp
  have hi: "r * real ?n < real ?n" using assms(2) n by simp
  have i0: "0 \<le> \<lfloor>r * real ?n\<rfloor>" using lo by simp
  have i1: "\<lfloor>r * real ?n\<rfloor> < int ?n" using hi by (simp add: floor_less_iff)
  then have "nat \<lfloor>r * real ?n\<rfloor> < ?n" using i0 by linarith
  then have mem: "xs ! nat \<lfloor>r * real ?n\<rfloor> \<in> set xs" by (rule nth_mem)
  have c: "0 \<le> \<lfloor>r * real ?n\<rfloor> \<and> \<lfloor>r * real ?n\<rfloor> < int ?n"
    using i0 i1 by (rule conjI)
  have "randomElement r xs = Some (xs ! nat \<lfloor>r * real ?n\<rfloor>)"
    unfolding randomElement_def Let_def by (simp only: c if_True simp_thms)
  then show ?thesis using mem by blast
qed

text \<open>
  What the selection does guarantee: for \<open>r\<close> in \<open>[0, 1)\<close>, when some key is not in
  \<open>recentPatterns\<close>, the chosen pattern is a key that is not in \<open>recentPatterns\<close> as it was
  before the call.
\<close>

lemma selectNextPattern_avoids_recent:
  assumes "0 \<le> r" "r < 1"
    and "filter (\<lambda>p. p \<notin> set (recentPatterns m)) (map fst (patterns m)) \<noteq> []"
  shows "\<exists>p. fst (selectNextPattern r m) = Some p \<and> p \<notin> set (recentPatterns m) \<and>
             p \<in> fst ` set (patterns m)"
proof -
  let ?av = "filter (\<lambda>p. p \<notin> set (recentPatterns m)) (map fst (patterns m))"
  obtain x where "x \<in> set ?av" "randomElement r ?av = Some x"
    using randomElement_in_range [OF assms] by blast
  then show ?thesis using assms(3) by (auto simp add: selectNextPattern_def Let_def)
qed

lemma new_manager_fields:
  "patterns ConstellationManager_new = initialPatterns"
  "recentPatterns ConstellationManager_new = []"
  "pendingTimeouts ConstellationManager_new = []"
  "completedPatterns ConstellationManager_new = []"
  "targetPattern ConstellationManager_new = ''triangle''"
  "collectedStars ConstellationManager_new = {||}"
  by (simp_all add: new_manager)

lemma after_alpha:
  "collectStar ''alpha'' r now ConstellationManager_new =
     Some (False, ConstellationManager_new\<lparr>collectedStars := {|''alpha''|}\<rparr>)"
proof -
  obtain cp where cp: "map_of initialPatterns ''triangle'' = Some cp"
    and st: "stars cp = [''alpha'', ''beta'', ''gamma'']"
    using triangle_stars by blast
  have c0: "currentPattern ConstellationManager_new = Some cp" by (simp add: new_manager cp)
  have s0: "collectedStars ConstellationManager_new = {||}" by (simp add: new_manager)
  have "collectStar ''alpha'' r now ConstellationManager_new =
        Some (False, ConstellationManager_new
                \<lparr>collectedStars := finsert ''alpha'' (collectedStars ConstellationManager_new)\<rparr>)"
    by (rule collectStar_progress [OF c0]) (simp_all add: st s0 fcard_fempty)
  then show ?thesis by (simp only: s0)
qed

lemma after_beta:
  "collectStar ''beta'' r now (ConstellationManager_new\<lparr>collectedStars := {|''alpha''|}\<rparr>) =
     Some (False, ConstellationManager_new\<lparr>collectedStars := {|''beta'', ''alpha''|}\<rparr>)"
proof -
  obtain cp where cp: "map_of initialPatterns ''triangle'' = Some cp"
    and st: "stars cp = [''alpha'', ''beta'', ''gamma'']"
    using triangle_stars by blast
  let ?m1 = "ConstellationManager_new\<lparr>collectedStars := {|''alpha''|}\<rparr>"
  have c1: "currentPattern ?m1 = Some cp" by (simp add: new_manager cp)
  have s1: "collectedStars ?m1 = {|''alpha''|}" by simp
  have "collectStar ''beta'' r now ?m1 =
        Some (False, ?m1\<lparr>collectedStars := finsert ''beta'' (collectedStars ?m1)\<rparr>)"
    by (rule collectStar_progress [OF c1]) (simp_all add: st fcard_finsert_if fcard_fempty)
  then show ?thesis by simp
qed

lemma two_collected:
  "currentPattern (ConstellationManager_new\<lparr>collectedStars := {|''beta'', ''alpha''|}\<rparr>) =
     map_of initialPatterns ''triangle''"
  "collectedStars (ConstellationManager_new\<lparr>collectedStars := {|''beta'', ''alpha''|}\<rparr>) =
     {|''beta'', ''alpha''|}"
  "targetPattern (ConstellationManager_new\<lparr>collectedStars := {|''beta'', ''alpha''|}\<rparr>) = ''triangle''"
  "recentPatterns (ConstellationManager_new\<lparr>collectedStars := {|''beta'', ''alpha''|}\<rparr>) = []"
  "patterns (ConstellationManager_new\<lparr>collectedStars := {|''beta'', ''alpha''|}\<rparr>) = initialPatterns"
  "completedPatterns (ConstellationManager_new\<lparr>collectedStars := {|''beta'', ''alpha''|}\<rparr>) = []"
  "pendingTimeouts (ConstellationManager_new\<lparr>collectedStars := {|''beta'', ''alpha''|}\<rparr>) = []"
  by (simp_all add: new_manager)


text \<open>
  Claim C8 fails on the code.  \<^verbatim>\<open>selectNextPattern\<close> filters the keys by \<open>recentPatterns\<close>
  and pushes the pattern just completed only after the choice.  On a new manager whose
  three stars are collected, with \<^verbatim>\<open>Math.random()\<close> returning 0, the pattern scheduled
  next is \<^verbatim>\<open>triangle\<close>, the pattern just completed.
\<close>

theorem next_goal_can_repeat_completed_goal:
  "collectStar ''alpha'' 0 0 ConstellationManager_new =
     Some (False, ConstellationManager_new\<lparr>collectedStars := {|''alpha''|}\<rparr>) \<and>
   collectStar ''beta'' 0 0 (ConstellationManager_new\<lparr>collectedStars := {|''alpha''|}\<rparr>) =
     Some (False, ConstellationManager_new\<lparr>collectedStars := {|''beta'', ''alpha''|}\<rparr>) \<and>
   fst (the (collectStar ''gamma'' 0 0
          (ConstellationManager_new\<lparr>collectedStars := {|''beta'', ''alpha''|}\<rparr>))) \<and>
   map done_pattern (completedPatterns (snd (the (collectStar ''gamma'' 0 0
          (ConstellationManager_new\<lparr>collectedStars := {|''beta'', ''alpha''|}\<rparr>))))) = [''triangle''] \<and>
   pendingTimeouts (snd (the (collectStar ''gamma'' 0 0
          (ConstellationManager_new\<lparr>collectedStars := {|''beta'', ''alpha''|}\<rparr>)))) =
     [(3000, Some ''triangle'')]"
proof -
  obtain cp where cp: "map_of initialPatterns ''triangle'' = Some cp"
    and st: "stars cp = [''alpha'', ''beta'', ''gamma'']"
    using triangle_stars by blast
  let ?m2 = "ConstellationManager_new\<lparr>collectedStars := {|''beta'', ''alpha''|}\<rparr>"
  have f2: "fcard {|''beta'', ''alpha''|} = 2" by (simp add: fcard_finsert_if fcard_fempty)
  have keys: "map fst initialPatterns = [''triangle'', ''cross'', ''spiral'', ''diamond'']"
    by (simp add: initialPatterns_def)
  have g: "collectStar ''gamma'' 0 0 ?m2 =
           Some (True, startMorphing 0
             (?m2\<lparr>collectedStars := finsert ''gamma'' (collectedStars ?m2),
                completedPatterns := completedPatterns ?m2 @
                  [\<lparr>done_pattern = targetPattern ?m2, done_name = pat_name cp,
                    completedAt = 0, done_bonus = bonus cp\<rparr>]\<rparr>))"
    by (rule collectStar_completes) (simp_all add: two_collected cp st f2)
  have sel: "fst (selectNextPattern 0 m) = Some ''triangle''"
    if "patterns m = initialPatterns" "recentPatterns m = []" for m
    using that by (simp add: selectNextPattern_def Let_def keys randomElement_def)
  show ?thesis
    by (simp add: after_alpha after_beta g two_collected startMorphing_def Let_def sel
          new_manager_fields)
qed

text \<open>
  When the timeout fires, the manager starts the triangle again.
\<close>

theorem next_goal_can_repeat_completed_goal_witness:
  "targetPattern (fireTimeout (snd (the (collectStar ''gamma'' 0 0
          (ConstellationManager_new\<lparr>collectedStars := {|''beta'', ''alpha''|}\<rparr>))))) = ''triangle'' \<and>
   getNeededStars (fireTimeout (snd (the (collectStar ''gamma'' 0 0
          (ConstellationManager_new\<lparr>collectedStars := {|''beta'', ''alpha''|}\<rparr>))))) =
     [''alpha'', ''beta'', ''gamma'']"
proof -
  let ?m = "snd (the (collectStar ''gamma'' 0 0
          (ConstellationManager_new\<lparr>collectedStars := {|''beta'', ''alpha''|}\<rparr>)))"
  have p: "pendingTimeouts ?m = [(3000, Some ''triangle'')]"
    using next_goal_can_repeat_completed_goal by simp
  have pats: "patterns ?m = initialPatterns"
    by (simp add: patterns_collectStar new_manager_fields)
  obtain cp where cp: "map_of initialPatterns ''triangle'' = Some cp"
    and st: "stars cp = [''alpha'', ''beta'', ''gamma'']"
    using triangle_stars by blast
  have f: "fireTimeout ?m = setPattern ''triangle'' (?m\<lparr>pendingTimeouts := []\<rparr>)"
    by (simp add: fireTimeout_def p Let_def)
  show ?thesis
    by (simp add: f setPattern_def pats cp getNeededStars_def st)
qed

subsection \<open>GameEngine: collisions between snakes\<close>



lemma respawnPlayer_fields [simp]:
  "lives (respawnPlayer e) = lives e" "enemies (respawnPlayer e) = enemies e"
  "snakeHeap (respawnPlayer e) = snakeHeap e" "score (respawnPlayer e) = score e"
  "gameState (respawnPlayer e) = gameState e"
  "alive (playerSnake (respawnPlayer e))" "invulnerable (playerSnake (respawnPlayer e))"
  "invulnerabilityTime (playerSnake (respawnPlayer e)) = 2000"
  "length (segments (playerSnake (respawnPlayer e))) = 1"
  "snake_type (playerSnake (respawnPlayer e)) = snake_type (playerSnake e)"
  by (simp_all add: respawnPlayer_def Let_def setInvulnerable_def Snake_reset_def)
































lemma trioEngine_fields:
  "allPairs (PlayerRef # map EnemyRef (enemies trioEngine)) =
     [(PlayerRef, EnemyRef 0)] @ (PlayerRef, EnemyRef 1) # [(EnemyRef 0, EnemyRef 1)]"
  "segments (playerSnake trioEngine) \<noteq> []"
  "\<forall>a \<in> set (enemies trioEngine). segments (snakeHeap trioEngine a) \<noteq> []"
  "alive (deref trioEngine PlayerRef)" "alive (deref trioEngine (EnemyRef 0))"
  "alive (deref trioEngine (EnemyRef 1))"
  by (simp_all add: trioEngine_def Snake_new_def deref_def)



text \<open>
  A collision that is there when the pass begins can be gone when its pair is tested.  In
  \<open>trioEngine\<close> the player and enemy 1, of one segment each, are head to head.  The pair of
  the player and enemy 0 comes first: the player's head is on the second segment of
  enemy 0, the longer snake, so the player is respawned at the centre of the grid and
  enemy 0 grows.  When the pair of the player and enemy 1 is tested the heads no longer
  coincide, and enemy 1 stays in the enemy list.
\<close>

lemma checkSnakeCollision_single:
  assumes "getHead s1 = Some h1" "segments s2 = [g]"
  shows "checkSnakeCollision s1 s2 =
           Some (js_eq (seg_x h1) (seg_x g) \<and> js_eq (seg_y h1) (seg_y g))"
  using assms by (simp add: checkSnakeCollision_def)

lemma earlier_pair_moves_player:
  "checkSnakeCollision (playerSnake trioEngine) (snakeHeap trioEngine 1) = Some True \<and>
   length (segments (playerSnake trioEngine)) = length (segments (snakeHeap trioEngine 1)) \<and>
   (\<exists>e'. checkSnakeVsSnakeCollisions trioEngine = Some e' \<and>
      enemies e' = [0, 1] \<and> lives e' = 2 \<and> alive (snakeHeap e' 1) \<and>
      length (segments (snakeHeap e' 0)) = 3 \<and>
      getHead (playerSnake e') = Some \<lparr>seg_x = Some 20, seg_y = Some 15, seg_type = ''head''\<rparr>)"
proof -
  let ?e1 = "respawnPlayer (trioEngine\<lparr>lives := 2\<rparr>)"
  have c0: "checkSnakeCollision (deref trioEngine PlayerRef) (deref trioEngine (EnemyRef 0)) = Some True"
    by (simp add: trioEngine_def Snake_new_def deref_def checkSnakeCollision_def getHead_def js_eq_def)
  have h: "handleSnakeCollision PlayerRef trioEngine = ?e1"
    by (simp add: handleSnakeCollision_def deref_def trioEngine_def Snake_new_def Let_def)
  obtain s' where s': "Snake_grow ''normal'' (deref ?e1 (EnemyRef 0)) = Some s'"
    and len: "length (segments s') = 3" and seg: "segments s' ! 0 = \<lparr>seg_x = Some 11, seg_y = Some 10, seg_type = ''head''\<rparr>"
    by (simp add: Snake_grow_def deref_def respawnPlayer_def Let_def trioEngine_def Snake_new_def
          updateSegmentEffects_def)
  let ?e2 = "assign (EnemyRef 0) s' ?e1"
  have hv: "handleSnakeVsSnakeCollision PlayerRef (EnemyRef 0) trioEngine = Some ?e2"
    by (simp add: handleSnakeVsSnakeCollision_def h growRef_def s')
       (simp add: trioEngine_def Snake_new_def deref_def)
  have hd: "getHead s' = Some \<lparr>seg_x = Some 11, seg_y = Some 10, seg_type = ''head''\<rparr>"
    using len seg by (cases "segments s'") (simp_all add: getHead_def)
  have p: "getHead (playerSnake ?e2) = Some \<lparr>seg_x = Some 20, seg_y = Some 15, seg_type = ''head''\<rparr>"
    by (simp add: assign_def respawnPlayer_def Let_def setInvulnerable_def Snake_reset_def
          getHead_def trioEngine_def)
  have e1: "deref ?e2 (EnemyRef 1) = Snake_new 10 10 ''enemy''" "deref ?e2 (EnemyRef 0) = s'"
    "deref ?e2 PlayerRef = playerSnake ?e2" "enemies ?e2 = [0, 1]" "lives ?e2 = 2"
    by (simp_all add: assign_def trioEngine_def deref_def)
  have seg1: "segments (deref ?e2 (EnemyRef 1)) =
                [\<lparr>seg_x = Some 10, seg_y = Some 10, seg_type = ''head''\<rparr>]"
    by (simp only: e1) (simp add: Snake_new_def)
  have p': "getHead (deref ?e2 PlayerRef) =
              Some \<lparr>seg_x = Some 20, seg_y = Some 15, seg_type = ''head''\<rparr>"
    using p by (simp only: e1)
  have hd': "getHead (deref ?e2 (EnemyRef 0)) =
              Some \<lparr>seg_x = Some 11, seg_y = Some 10, seg_type = ''head''\<rparr>"
    using hd by (simp only: e1)
  have c1: "checkSnakeCollision (deref ?e2 PlayerRef) (deref ?e2 (EnemyRef 1)) = Some False"
    by (simp only: checkSnakeCollision_single [OF p' seg1]) (simp add: js_eq_def)
  have c2: "checkSnakeCollision (deref ?e2 (EnemyRef 0)) (deref ?e2 (EnemyRef 1)) = Some False"
    by (simp only: checkSnakeCollision_single [OF hd' seg1]) (simp add: js_eq_def)
  have "checkSnakeVsSnakeCollisions trioEngine = Some ?e2"
    unfolding checkSnakeVsSnakeCollisions_def trioEngine_fields(1)
    using c0 hv c1 c2 by simp
  moreover have "checkSnakeCollision (playerSnake trioEngine) (snakeHeap trioEngine 1) = Some True"
    "length (segments (playerSnake trioEngine)) = length (segments (snakeHeap trioEngine 1))"
    by (simp_all add: trioEngine_def Snake_new_def checkSnakeCollision_def getHead_def js_eq_def)
  moreover have "alive (snakeHeap ?e2 1)" "length (segments (snakeHeap ?e2 0)) = 3"
    using e1(1,2) len by (simp_all add: deref_def Snake_new_def)
  ultimately show ?thesis using e1(4,5) p by simp
qed

end
